theory Spec2Isabelle
  imports Complex_Main "HOL-Library.Log_Nat" "HOL-Library.Word"
begin

section \<open>JavaScript numbers\<close>

text \<open>
  The front end is TypeScript, so every \<^verbatim>\<open>number\<close> is an IEEE-754 binary64 value.
  A finite value is kept as the rational it denotes; the two infinities and NaN are
  constructors of their own. The sign of zero is not modelled: no expression of the
  modelled code observes it.
\<close>

datatype number = Fin rat | PInf | NInf | NaN

text \<open>\<open>ilog2 x\<close> is the binary exponent of a positive rational: \<open>2 powi ilog2 x \<le> x < 2 powi (ilog2 x + 1)\<close>.\<close>

definition ilog2 :: "rat \<Rightarrow> int" where
  "ilog2 x = (let (a, b) = quotient_of x; k = bitlen a - bitlen b
              in if 2 powi k \<le> x then k else k - 1)"

text \<open>Round to the nearest integer, ties to the even one.\<close>

definition roundHalfEven :: "rat \<Rightarrow> int" where
  "roundHalfEven q = (let f = \<lfloor>q\<rfloor>; d = q - of_int f
     in if d < 1 / 2 then f else if 1 / 2 < d then f + 1 else if even f then f else f + 1)"

text \<open>
  \<open>toDouble x\<close> is the binary64 value nearest to the exact value \<open>x\<close> (round to nearest,
  ties to even): 53 significant bits, least exponent \<open>-1074\<close> (gradual underflow), and
  overflow to an infinity from \<open>2 ^ 1024\<close> on. Every arithmetic operation of
  JavaScript on finite numbers is the exact operation followed by this rounding, and so
  are the reading of a decimal literal and \<^verbatim>\<open>Number(bigint)\<close>.
\<close>

definition toDouble :: "rat \<Rightarrow> number" where
  "toDouble x = (if x = 0 then Fin 0 else
     let m = \<bar>x\<bar>;
         e = max (ilog2 m - 52) (- 1074);
         r = of_int (roundHalfEven (m / 2 powi e)) * 2 powi e
     in if 2 powi 1024 \<le> r then (if 0 < x then PInf else NInf)
        else Fin (if 0 < x then r else - r))"

text \<open>A number is a binary64 value when rounding leaves it unchanged.\<close>

fun is_double :: "number \<Rightarrow> bool" where
  "is_double (Fin x) = (toDouble x = Fin x)"
| "is_double _ = True"

text \<open>The operator \<^verbatim>\<open>*\<close> on numbers.\<close>

fun js_mul :: "number \<Rightarrow> number \<Rightarrow> number" where
  "js_mul NaN _ = NaN"
| "js_mul _ NaN = NaN"
| "js_mul (Fin a) (Fin b) = toDouble (a * b)"
| "js_mul (Fin a) PInf = (if a = 0 then NaN else if 0 < a then PInf else NInf)"
| "js_mul (Fin a) NInf = (if a = 0 then NaN else if 0 < a then NInf else PInf)"
| "js_mul PInf (Fin b) = (if b = 0 then NaN else if 0 < b then PInf else NInf)"
| "js_mul NInf (Fin b) = (if b = 0 then NaN else if 0 < b then NInf else PInf)"
| "js_mul PInf PInf = PInf"
| "js_mul PInf NInf = NInf"
| "js_mul NInf PInf = NInf"
| "js_mul NInf NInf = PInf"

text \<open>The operator \<^verbatim>\<open>-\<close> on numbers.\<close>

fun js_sub :: "number \<Rightarrow> number \<Rightarrow> number" where
  "js_sub NaN _ = NaN"
| "js_sub _ NaN = NaN"
| "js_sub (Fin a) (Fin b) = toDouble (a - b)"
| "js_sub (Fin a) PInf = NInf"
| "js_sub (Fin a) NInf = PInf"
| "js_sub PInf (Fin b) = PInf"
| "js_sub NInf (Fin b) = NInf"
| "js_sub PInf PInf = NaN"
| "js_sub NInf NInf = NaN"
| "js_sub PInf NInf = PInf"
| "js_sub NInf PInf = NInf"

text \<open>The operator \<^verbatim>\<open><\<close> on numbers: false as soon as an operand is NaN.\<close>

fun js_lt :: "number \<Rightarrow> number \<Rightarrow> bool" where
  "js_lt NaN _ = False"
| "js_lt _ NaN = False"
| "js_lt (Fin a) (Fin b) = (a < b)"
| "js_lt (Fin a) PInf = True"
| "js_lt (Fin a) NInf = False"
| "js_lt PInf _ = False"
| "js_lt NInf NInf = False"
| "js_lt NInf _ = True"

text \<open>\<^verbatim>\<open>a > b\<close> is \<^verbatim>\<open>b < a\<close>.\<close>

definition js_gt :: "number \<Rightarrow> number \<Rightarrow> bool" where
  "js_gt a b = js_lt b a"

text \<open>\<^verbatim>\<open>a <= b\<close>: less or equal, false as soon as an operand is NaN.\<close>

definition js_le :: "number \<Rightarrow> number \<Rightarrow> bool" where
  "js_le a b = (a \<noteq> NaN \<and> b \<noteq> NaN \<and> (js_lt a b \<or> a = b))"

definition isNaN :: "number \<Rightarrow> bool" where
  "isNaN x = (x = NaN)"

text \<open>\<^verbatim>\<open>Math.min\<close> and \<^verbatim>\<open>Math.max\<close> of two numbers: NaN as soon as an argument is NaN.\<close>

definition Math_min :: "number \<Rightarrow> number \<Rightarrow> number" where
  "Math_min a b = (if a = NaN \<or> b = NaN then NaN else if js_lt b a then b else a)"

definition Math_max :: "number \<Rightarrow> number \<Rightarrow> number" where
  "Math_max a b = (if a = NaN \<or> b = NaN then NaN else if js_lt a b then b else a)"

text \<open>\<^verbatim>\<open>Math.floor\<close>.\<close>

fun Math_floor :: "number \<Rightarrow> number" where
  "Math_floor (Fin a) = Fin (of_int \<lfloor>a\<rfloor>)"
| "Math_floor x = x"


section \<open>Values crossing the contract boundary\<close>

text \<open>
  The wire values of the contract (\<^verbatim>\<open>xdr.ScVal\<close>): the variants the modelled calls build
  or receive.
\<close>

datatype scval =
    ScvVoid
  | ScvBool bool
  | ScvU32 "32 word"
  | ScvI128 int
  | ScvString string
  | ScvAddress string
  | ScvMap "(string \<times> scval) list"

text \<open>Native JavaScript values, as far as \<^verbatim>\<open>typeof\<close> tells them apart.\<close>

datatype jsval =
    JUndefined
  | JNull
  | JBool bool
  | JNumber number
  | JBigInt int
  | JString string
  | JObject "(string \<times> jsval) list"

text \<open>
  \<^verbatim>\<open>scValToNative\<close> of the SDK: a 128-bit integer becomes a bigint, a 32-bit one a
  number, strings and addresses become strings, a map an object (the keys of a contract
  map are distinct), void becomes null.
\<close>

fun scValToNative :: "scval \<Rightarrow> jsval" where
  "scValToNative ScvVoid = JNull"
| "scValToNative (ScvBool b) = JBool b"
| "scValToNative (ScvU32 n) = JNumber (Fin (of_nat (unat n)))"
| "scValToNative (ScvI128 i) = JBigInt i"
| "scValToNative (ScvString s) = JString s"
| "scValToNative (ScvAddress a) = JString a"
| "scValToNative (ScvMap kvs) = JObject (map (\<lambda>(k, v). (k, scValToNative v)) kvs)"

text \<open>Truthiness, for \<^verbatim>\<open>!result\<close> and \<^verbatim>\<open>a || b\<close>.\<close>

fun truthy :: "jsval \<Rightarrow> bool" where
  "truthy JUndefined = False"
| "truthy JNull = False"
| "truthy (JBool b) = b"
| "truthy (JNumber x) = (x \<noteq> NaN \<and> x \<noteq> Fin 0)"
| "truthy (JBigInt i) = (i \<noteq> 0)"
| "truthy (JString s) = (s \<noteq> [])"
| "truthy (JObject _) = True"

text \<open>Property access \<^verbatim>\<open>v.k\<close> on a value that is neither null nor undefined.\<close>

fun getProp :: "jsval \<Rightarrow> string \<Rightarrow> jsval" where
  "getProp (JObject kvs) k = (case map_of kvs k of Some v \<Rightarrow> v | None \<Rightarrow> JUndefined)"
| "getProp _ k = JUndefined"

text \<open>
  What the code throws: \<^verbatim>\<open>new Error(message)\<close> of its own, an exception of the SDK or
  of the wallet extension, or the error object of the store client.
\<close>

datatype exn = Error string | SdkError string | PostgrestError string

subsection \<open>stellar.ts: conversions\<close>

text \<open>
  \<^verbatim>\<open>
  export function bigIntToNumber(value: any): number {
    if (typeof value === 'bigint') { return Number(value); }
    if (typeof value === 'number') { return value; }
    return 0;
  }
  \<close>
  \<^verbatim>\<open>Number(value)\<close> of a bigint is the nearest binary64 value.
\<close>

fun bigIntToNumber :: "jsval \<Rightarrow> number" where
  "bigIntToNumber (JBigInt i) = toDouble (of_int i)"
| "bigIntToNumber (JNumber x) = x"
| "bigIntToNumber _ = Fin 0"

text \<open>The signed 128-bit integer an integer wraps to, modulo \<open>2 ^ 128\<close>.\<close>

definition wrapI128 :: "int \<Rightarrow> int" where
  "wrapI128 n = (n + 2 ^ 127) mod 2 ^ 128 - 2 ^ 127"

text \<open>
  \<^verbatim>\<open>numberToScVal(num) = nativeToScVal(num, { type: 'i128' })\<close>: the SDK converts the
  number with \<^verbatim>\<open>BigInt(num)\<close>, which throws a RangeError unless the number is an
  integer (so also for NaN and the infinities); an integer outside the signed 128-bit
  range is not rejected, it wraps modulo \<open>2 ^ 128\<close>.
\<close>

fun numberToScVal :: "number \<Rightarrow> exn + scval" where
  "numberToScVal (Fin x) =
     (if x \<noteq> of_int \<lfloor>x\<rfloor> then Inl (SdkError ''RangeError'')
      else Inr (ScvI128 (wrapI128 \<lfloor>x\<rfloor>)))"
| "numberToScVal _ = Inl (SdkError ''RangeError'')"

definition stringToScVal :: "string \<Rightarrow> scval" where
  "stringToScVal str = ScvString str"

section \<open>The network, the wallet and the SDK\<close>

record account =
  accountId :: string
  sequence :: nat

text \<open>\<^verbatim>\<open>BASE_FEE\<close> and \<^verbatim>\<open>Networks.TESTNET\<close> of the SDK.\<close>

definition BASE_FEE :: string where
  "BASE_FEE = ''100''"

definition NETWORK_PASSPHRASE :: string where
  "NETWORK_PASSPHRASE = ''Test SDF Network ; September 2015''"

text \<open>The unsigned envelope: one contract invocation, the base fee, a time-out.\<close>

record transaction =
  tx_source :: account
  tx_contract :: string
  tx_method :: string
  tx_args :: "scval list"
  tx_fee :: string
  tx_networkPassphrase :: string
  tx_timeout :: nat

text \<open>
  The answer of a dry run: an error with the diagnostic of the network, or a success
  whose \<^verbatim>\<open>result\<close> (the authorisation entries and the return value) may be absent;
  \<open>SimulationSuccess r\<close> has \<^verbatim>\<open>result?.retval\<close> \<open>= r\<close>.
\<close>

datatype simulation = SimulationFailure string | SimulationSuccess "scval option"

fun isSimulationError :: "simulation \<Rightarrow> bool" where
  "isSimulationError (SimulationFailure _) = True"
| "isSimulationError (SimulationSuccess _) = False"

text \<open>\<^verbatim>\<open>simulated.error\<close> (undefined, hence falsy, on a success) and \<^verbatim>\<open>simulated.result?.retval\<close>.\<close>

fun simulationError :: "simulation \<Rightarrow> string" where
  "simulationError (SimulationFailure err) = err"
| "simulationError (SimulationSuccess _) = []"

fun simulationRetval :: "simulation \<Rightarrow> scval option" where
  "simulationRetval (SimulationSuccess retval) = retval"
| "simulationRetval (SimulationFailure _) = None"

text \<open>
  \<^verbatim>\<open>assembleTransaction(transaction, simulated)\<close> of the SDK: the envelope with the
  simulation merged in. It takes the authorisation entries from \<^verbatim>\<open>simulated.result\<close>,
  so it throws a TypeError on a success that carries no result, and it refuses a
  simulation that is no success.
\<close>

record assembled =
  as_transaction :: transaction
  as_simulation :: simulation

fun assembleTransaction :: "transaction \<Rightarrow> simulation \<Rightarrow> exn + assembled" where
  "assembleTransaction t (SimulationFailure err) = Inl (SdkError ''simulation incorrect'')"
| "assembleTransaction t (SimulationSuccess None) = Inl (SdkError ''TypeError'')"
| "assembleTransaction t (SimulationSuccess (Some r)) =
     Inr \<lparr>as_transaction = t, as_simulation = SimulationSuccess (Some r)\<rparr>"

datatype sendStatus = PENDING | DUPLICATE | TRY_AGAIN_LATER | ERROR

record sendResponse =
  send_status :: sendStatus
  send_hash :: string

datatype getStatus = SUCCESS | NOT_FOUND | FAILED

record getResponse =
  get_status :: getStatus
  returnValue :: "scval option"

fun statusName :: "getStatus \<Rightarrow> string" where
  "statusName SUCCESS = ''SUCCESS''"
| "statusName NOT_FOUND = ''NOT_FOUND''"
| "statusName FAILED = ''FAILED''"

text \<open>
  The collaborators, as the answers they give; every call may throw (\<open>Inl\<close>).
  \<^item> \<open>newContract\<close>: \<^verbatim>\<open>new Contract(contractId)\<close>, which rejects a malformed identifier;
  \<^item> \<open>addressCheck\<close>: the error of the SDK for a string that is no address, if any;
  \<^item> \<open>getAccount\<close>, \<open>simulateTransaction\<close>, \<open>sendTransaction\<close>: the calls on the RPC
    server; \<open>getTransaction w k h\<close> is the answer to the \<open>k\<close>-th status request for hash
    \<open>h\<close> within one invocation, counted from 0;
  \<^item> \<open>signTransaction\<close>: the wallet extension, asked to sign the assembled envelope for an
    address, answering with the signed XDR;
  \<^item> \<open>fromXDR\<close>: \<^verbatim>\<open>TransactionBuilder.fromXDR\<close>, which rejects text that is no envelope.
\<close>

record world =
  newContract :: "string \<Rightarrow> exn + string"
  addressCheck :: "string \<Rightarrow> exn option"
  getAccount :: "string \<Rightarrow> exn + account"
  simulateTransaction :: "transaction \<Rightarrow> exn + simulation"
  signTransaction :: "assembled \<Rightarrow> string \<Rightarrow> exn + string"
  fromXDR :: "string \<Rightarrow> exn + string"
  sendTransaction :: "string \<Rightarrow> exn + sendResponse"
  getTransaction :: "nat \<Rightarrow> string \<Rightarrow> exn + getResponse"

text \<open>
  \<^verbatim>\<open>addressToScVal(address) = nativeToScVal(address, { type: 'address' })\<close> throws on a
  string that is no account or contract identifier.
\<close>

definition addressToScVal :: "world \<Rightarrow> string \<Rightarrow> exn + scval" where
  "addressToScVal w address =
     (case addressCheck w address of Some e \<Rightarrow> Inl e | None \<Rightarrow> Inr (ScvAddress address))"

text \<open>What one invocation asks of its collaborators, in order.\<close>

datatype event =
    EvGetAccount string
  | EvSimulate transaction
  | EvSign assembled string
  | EvSend string
  | EvGetTransaction string
  | EvSleep nat

definition buildTransaction :: "account \<Rightarrow> string \<Rightarrow> string \<Rightarrow> scval list \<Rightarrow> transaction" where
  "buildTransaction account contract method params =
     \<lparr>tx_source = account, tx_contract = contract, tx_method = method, tx_args = params,
      tx_fee = BASE_FEE, tx_networkPassphrase = NETWORK_PASSPHRASE, tx_timeout = 30\<rparr>"


section \<open>stellar.ts: the transaction orchestrator\<close>

text \<open>
  The confirmation loop of \<^verbatim>\<open>invokeContract\<close>:
  \<^verbatim>\<open>
  while (getResponse.status === Api.GetTransactionStatus.NOT_FOUND) {
    await new Promise(resolve => setTimeout(resolve, 1000));
    getResponse = await server.getTransaction(sendResponse.hash);
  }
  \<close>
  \<open>k\<close> counts the status requests made so far, \<open>tr\<close> is the trace so far. The loop
  has no bound, so the function is partial: \<open>None\<close> is the loop that never ends.
\<close>

partial_function (option) pollTransaction ::
  "world \<Rightarrow> string \<Rightarrow> nat \<Rightarrow> getResponse \<Rightarrow> event list \<Rightarrow> ((exn + getResponse) \<times> event list) option"
where
  "pollTransaction w h k getResponse tr =
     (if get_status getResponse = NOT_FOUND then
        (case getTransaction w (Suc k) h of
           Inl e \<Rightarrow> Some (Inl e, tr @ [EvSleep 1000, EvGetTransaction h])
         | Inr r \<Rightarrow> pollTransaction w h (Suc k) r (tr @ [EvSleep 1000, EvGetTransaction h]))
      else Some (Inr getResponse, tr))"

text \<open>
  The requests of \<open>n\<close> rounds of the confirmation loop for hash \<open>h\<close>: a wait of one
  second, then a status request.
\<close>

definition pollTrace :: "string \<Rightarrow> nat \<Rightarrow> event list" where
  "pollTrace h n = concat (replicate n [EvSleep 1000, EvGetTransaction h])"

text \<open>
  \<^verbatim>\<open>invokeContract(walletAddress, contractId, method, params)\<close>: the result (the thrown
  value on the left, the returned one on the right) and the trace of requests.
  The \<^verbatim>\<open>catch\<close> of the source logs and rethrows, and logging is not modelled.
\<close>

definition invokeContract ::
  "world \<Rightarrow> string \<Rightarrow> string \<Rightarrow> string \<Rightarrow> scval list \<Rightarrow> ((exn + jsval) \<times> event list) option"
where
  "invokeContract w walletAddress contractId method params =
    (case newContract w contractId of
       Inl e \<Rightarrow> Some (Inl e, [])
     | Inr contract \<Rightarrow>
    (let tr1 = [EvGetAccount walletAddress] in
     case getAccount w walletAddress of
       Inl e \<Rightarrow> Some (Inl e, tr1)
     | Inr account \<Rightarrow>
    (let transaction = buildTransaction account contract method params;
         tr2 = tr1 @ [EvSimulate transaction] in
     case simulateTransaction w transaction of
       Inl e \<Rightarrow> Some (Inl e, tr2)
     | Inr simulated \<Rightarrow>
     if isSimulationError simulated then
       Some (Inl (Error (''Simulation failed: '' @
                    (if simulationError simulated \<noteq> [] then simulationError simulated
                     else ''Unknown error''))), tr2)
     else
     (case assembleTransaction transaction simulated of
       Inl e \<Rightarrow> Some (Inl e, tr2)
     | Inr assembled \<Rightarrow>
    (let tr3 = tr2 @ [EvSign assembled walletAddress] in
     case signTransaction w assembled walletAddress of
       Inl e \<Rightarrow> Some (Inl e, tr3)
     | Inr signedTxXdr \<Rightarrow>
     (case fromXDR w signedTxXdr of
       Inl e \<Rightarrow> Some (Inl e, tr3)
     | Inr signedTransaction \<Rightarrow>
    (let tr4 = tr3 @ [EvSend signedTransaction] in
     case sendTransaction w signedTransaction of
       Inl e \<Rightarrow> Some (Inl e, tr4)
     | Inr sendResponse \<Rightarrow>
       if send_status sendResponse = PENDING then
         (let tr5 = tr4 @ [EvGetTransaction (send_hash sendResponse)] in
          case getTransaction w 0 (send_hash sendResponse) of
            Inl e \<Rightarrow> Some (Inl e, tr5)
          | Inr getResponse \<Rightarrow>
            (case pollTransaction w (send_hash sendResponse) 0 getResponse tr5 of
               None \<Rightarrow> None
             | Some (Inl e, tr) \<Rightarrow> Some (Inl e, tr)
             | Some (Inr final, tr) \<Rightarrow>
                 if get_status final = SUCCESS then
                   Some (Inr (case returnValue final of
                                Some result \<Rightarrow> scValToNative result
                              | None \<Rightarrow> JNull), tr)
                 else Some (Inl (Error (''Transaction failed: '' @ statusName (get_status final))), tr)))
       else Some (Inl (Error ''Transaction submission failed''), tr4))))))))"

text \<open>The error after a failed dry run, under the name the specification gives it.\<close>

definition SimulationError :: "string \<Rightarrow> exn" where
  "SimulationError diagnostic = Error (''Simulation failed: '' @ diagnostic)"

subsection \<open>The read-only invoker\<close>

text \<open>The source account of every read-only call.\<close>

definition DUMMY_ACCOUNT :: string where
  "DUMMY_ACCOUNT = ''GAAAAAAAAAAAAAAAAAAAAAAAAAAAAAAAAAAAAAAAAAAAAAAAAAAAAWHF''"

text \<open>
  \<^verbatim>\<open>readContract(contractId, method, params)\<close>: it ends after the simulation, so it is
  total.
\<close>

definition readContract ::
  "world \<Rightarrow> string \<Rightarrow> string \<Rightarrow> scval list \<Rightarrow> (exn + jsval) \<times> event list"
where
  "readContract w contractId method params =
    (case newContract w contractId of
       Inl e \<Rightarrow> (Inl e, [])
     | Inr contract \<Rightarrow>
    (let tr1 = [EvGetAccount DUMMY_ACCOUNT] in
     case getAccount w DUMMY_ACCOUNT of
       Inl e \<Rightarrow> (Inl e, tr1)
     | Inr account \<Rightarrow>
    (let transaction = buildTransaction account contract method params;
         tr2 = tr1 @ [EvSimulate transaction] in
     case simulateTransaction w transaction of
       Inl e \<Rightarrow> (Inl e, tr2)
     | Inr simulated \<Rightarrow>
     if isSimulationError simulated then (Inl (Error ''Simulation failed''), tr2)
     else (Inr (case simulationRetval simulated of
                  Some result \<Rightarrow> scValToNative result
                | None \<Rightarrow> JNull), tr2))))"

text \<open>The error of the read-only invoker carries no diagnostic.\<close>

definition ReadSimulationError :: exn where
  "ReadSimulationError = Error ''Simulation failed''"


section \<open>contractService.ts: calls on the contract\<close>

text \<open>
  The conversion of an amount in XLM to stroops, written out in
  \<^verbatim>\<open>initializeCompany\<close> (twice) and in \<^verbatim>\<open>transferTokensWithPayment\<close>:
  \<^verbatim>\<open>Math.floor(tokenPrice * 10_000_000)\<close>.
\<close>

definition toStroops :: "number \<Rightarrow> number" where
  "toStroops amount = Math_floor (js_mul amount (Fin 10000000))"

text \<open>
  The elements of a parameter array are evaluated from left to right; the first one that
  throws ends the call.
\<close>

fun collect :: "(exn + 'a) list \<Rightarrow> exn + 'a list" where
  "collect [] = Inr []"
| "collect (x # xs) =
     (case x of
        Inl e \<Rightarrow> Inl e
      | Inr v \<Rightarrow> (case collect xs of Inl e \<Rightarrow> Inl e | Inr vs \<Rightarrow> Inr (v # vs)))"

text \<open>A call that returns \<^verbatim>\<open>Promise<void>\<close> drops the value of the invocation.\<close>

definition discard :: "((exn + jsval) \<times> event list) option \<Rightarrow> ((exn + unit) \<times> event list) option" where
  "discard r = (case r of
      None \<Rightarrow> None
    | Some (Inl e, tr) \<Rightarrow> Some (Inl e, tr)
    | Some (Inr _, tr) \<Rightarrow> Some (Inr (), tr))"

definition initializeCompany ::
  "world \<Rightarrow> string \<Rightarrow> string \<Rightarrow> string \<Rightarrow> string \<Rightarrow> number \<Rightarrow> number \<Rightarrow> string \<Rightarrow> number \<Rightarrow> number
     \<Rightarrow> ((exn + unit) \<times> event list) option"
where
  "initializeCompany w walletAddress contractId name symbol totalSupply equityPercent description
       tokenPrice targetAmount =
    (let tokenPriceStroops = toStroops tokenPrice;
         targetAmountStroops = toStroops targetAmount
     in case collect
          [Inr (stringToScVal name),
           Inr (stringToScVal symbol),
           numberToScVal totalSupply,
           addressToScVal w walletAddress,
           numberToScVal equityPercent,
           Inr (stringToScVal description),
           numberToScVal tokenPriceStroops,
           numberToScVal targetAmountStroops] of
          Inl e \<Rightarrow> Some (Inl e, [])
        | Inr params \<Rightarrow> discard (invokeContract w walletAddress contractId ''init_company'' params))"

definition transferTokensWithPayment ::
  "world \<Rightarrow> string \<Rightarrow> string \<Rightarrow> string \<Rightarrow> number \<Rightarrow> number \<Rightarrow> string
     \<Rightarrow> ((exn + unit) \<times> event list) option"
where
  "transferTokensWithPayment w buyerAddress sellerAddress contractId amount pricePerToken xlmTokenAddress =
    (let pricePerTokenStroops = toStroops pricePerToken
     in case collect
          [addressToScVal w sellerAddress,
           addressToScVal w buyerAddress,
           numberToScVal amount,
           numberToScVal pricePerTokenStroops,
           addressToScVal w xlmTokenAddress] of
          Inl e \<Rightarrow> Some (Inl e, [])
        | Inr params \<Rightarrow>
            discard (invokeContract w buyerAddress contractId ''transfer_with_payment'' params))"

text \<open>The projection of the contract's state, with the wide integers narrowed.\<close>

record CompanyInfo =
  ci_name :: jsval
  ci_symbol :: jsval
  total_supply :: number
  ci_owner :: jsval
  equity_percent :: number
  ci_description :: jsval
  ci_token_price :: number
  ci_target_amount :: number

text \<open>\<^verbatim>\<open>getCompanyInfo\<close>: null (\<open>None\<close>) on a falsy result and on every exception.\<close>

definition getCompanyInfo :: "world \<Rightarrow> string \<Rightarrow> CompanyInfo option" where
  "getCompanyInfo w contractId =
    (case fst (readContract w contractId ''get_company_info'' []) of
       Inl e \<Rightarrow> None
     | Inr result \<Rightarrow>
         if \<not> truthy result then None
         else Some
           \<lparr>ci_name = getProp result ''name'',
            ci_symbol = getProp result ''symbol'',
            total_supply = bigIntToNumber (getProp result ''total_supply''),
            ci_owner = getProp result ''owner'',
            equity_percent = bigIntToNumber (getProp result ''equity_percent''),
            ci_description =
              (if truthy (getProp result ''description'') then getProp result ''description''
               else JString []),
            ci_token_price = bigIntToNumber (getProp result ''token_price''),
            ci_target_amount = bigIntToNumber (getProp result ''target_amount'')\<rparr>)"

text \<open>
  \<^verbatim>\<open>
  export async function getTokenBalance(contractId, address): Promise<number> {
    try {
      const params = [addressToScVal(address)];
      const result = await readContract(contractId, 'balance_of', params);
      return bigIntToNumber(result);
    } catch (error) {
      console.error('Error getting balance:', error);
      return 0;
    }
  }
  \<close>
\<close>

definition getTokenBalance :: "world \<Rightarrow> string \<Rightarrow> string \<Rightarrow> number" where
  "getTokenBalance w contractId address =
    (case addressToScVal w address of
       Inl e \<Rightarrow> Fin 0
     | Inr a \<Rightarrow>
        (case fst (readContract w contractId ''balance_of'' [a]) of
           Inl e \<Rightarrow> Fin 0
         | Inr result \<Rightarrow> bigIntToNumber result))"


section \<open>contractService.ts: the off-chain store\<close>

text \<open>
  The rows of the two tables, with the columns the modelled functions read or write.
  \<open>created_at\<close> is the instant the column holds (the client receives its text).
  \<open>row_contract_id\<close> may be null.
\<close>

record company_row =
  row_name :: string
  row_description :: string
  row_logo_url :: string
  row_target_amount :: number
  row_token_price :: number
  row_wallet_address :: string
  row_contract_id :: "string option"
  row_created_at :: int

record resale_row =
  rrow_id :: string
  rrow_company_id :: string
  rrow_seller_wallet :: string
  rrow_tokens_for_sale :: number
  rrow_price_per_token :: number
  rrow_is_active :: bool
  rrow_created_at :: int

text \<open>
  The store: its tables, and \<open>fault\<close>, the error every request meets while the store
  cannot be reached (\<open>None\<close> when it can).
\<close>

record store =
  fault :: "exn option"
  companies :: "company_row list"
  resale_listings :: "resale_row list"

text \<open>What the client answers: \<^verbatim>\<open>{ data, error }\<close>.\<close>

record 'a response =
  resp_data :: "'a option"
  resp_error :: "exn option"

text \<open>The error of \<^verbatim>\<open>.single()\<close> when the rows found are not exactly one.\<close>

definition PGRST116 :: exn where
  "PGRST116 = PostgrestError ''PGRST116''"

text \<open>\<^verbatim>\<open>.order('created_at', { ascending: false })\<close>.\<close>

definition order_desc :: "('r \<Rightarrow> int) \<Rightarrow> 'r list \<Rightarrow> 'r list" where
  "order_desc created rows = sort_key (\<lambda>r. - created r) rows"

text \<open>\<^verbatim>\<open>.from(...).select('*')\<close> with filters and an order: the rows, or the fault.\<close>

definition select_rows :: "store \<Rightarrow> 'r list \<Rightarrow> 'r list response" where
  "select_rows st rows =
     (case fault st of
        Some e \<Rightarrow> \<lparr>resp_data = None, resp_error = Some e\<rparr>
      | None \<Rightarrow> \<lparr>resp_data = Some rows, resp_error = None\<rparr>)"

text \<open>\<^verbatim>\<open>.single()\<close>: the row when exactly one matches.\<close>

definition select_single :: "store \<Rightarrow> 'r list \<Rightarrow> 'r response" where
  "select_single st rows =
     (case fault st of
        Some e \<Rightarrow> \<lparr>resp_data = None, resp_error = Some e\<rparr>
      | None \<Rightarrow>
         (case rows of
            [r] \<Rightarrow> \<lparr>resp_data = Some r, resp_error = None\<rparr>
          | _ \<Rightarrow> \<lparr>resp_data = None, resp_error = Some PGRST116\<rparr>))"

record CompanyMetadata =
  contractId :: string
  company_name :: string
  company_description :: string
  logo_url :: string
  owner_wallet :: string
  token_price :: number
  target_amount :: number
  company_created_at :: int

record ResaleListing =
  listing_id :: string
  contract_id :: string
  seller_wallet :: string
  tokens_for_sale :: number
  price_per_token :: number
  is_active :: bool
  created_at :: int

text \<open>
  The object both company readers build from a row;
  \<^verbatim>\<open>contractId: c.contract_id || c.wallet_address\<close>.
\<close>

definition toCompanyMetadata :: "company_row \<Rightarrow> CompanyMetadata" where
  "toCompanyMetadata c =
     \<lparr>contractId = (case row_contract_id c of
                       Some i \<Rightarrow> if i \<noteq> [] then i else row_wallet_address c
                     | None \<Rightarrow> row_wallet_address c),
      company_name = row_name c,
      company_description = row_description c,
      logo_url = row_logo_url c,
      owner_wallet = row_wallet_address c,
      token_price = row_token_price c,
      target_amount = row_target_amount c,
      company_created_at = row_created_at c\<rparr>"

definition toResaleListing :: "resale_row \<Rightarrow> ResaleListing" where
  "toResaleListing l =
     \<lparr>listing_id = rrow_id l,
      contract_id = rrow_company_id l,
      seller_wallet = rrow_seller_wallet l,
      tokens_for_sale = rrow_tokens_for_sale l,
      price_per_token = rrow_price_per_token l,
      is_active = rrow_is_active l,
      created_at = rrow_created_at l\<rparr>"

text \<open>
  \<^verbatim>\<open>
  const { data, error } = await supabase.from('companies').select('*')
    .order('created_at', { ascending: false });
  if (error) { console.error(...); return []; }
  return (data || []).map((c: any) => ({ ... }));
  \<close>
\<close>

definition getCompaniesMetadata :: "store \<Rightarrow> CompanyMetadata list" where
  "getCompaniesMetadata st =
     (let r = select_rows st (order_desc row_created_at (companies st))
      in case resp_error r of
           Some e \<Rightarrow> []
         | None \<Rightarrow> map toCompanyMetadata (case resp_data r of Some d \<Rightarrow> d | None \<Rightarrow> []))"

text \<open>
  \<^verbatim>\<open>
  const { data, error } = await supabase.from('companies').select('*')
    .or(`contract_id.eq.${contractId},wallet_address.eq.${contractId}`).single();
  if (error || !data) { console.error('Error fetching company:', error); return null; }
  return { ... };
  \<close>
\<close>

definition getCompanyMetadata :: "store \<Rightarrow> string \<Rightarrow> CompanyMetadata option" where
  "getCompanyMetadata st cid =
     (let r = select_single st
                (filter (\<lambda>c. row_contract_id c = Some cid \<or> row_wallet_address c = cid) (companies st))
      in if resp_error r \<noteq> None \<or> resp_data r = None then None
         else map_option toCompanyMetadata (resp_data r))"

text \<open>
  \<^verbatim>\<open>
  const { data, error } = await supabase.from('resale_listings').select('*')
    .eq('is_active', true).order('created_at', { ascending: false });
  if (error) { console.error(...); return []; }
  return (data || []).map((l: any) => ({ ... }));
  \<close>
\<close>

definition getActiveResaleListings :: "store \<Rightarrow> ResaleListing list" where
  "getActiveResaleListings st =
     (let r = select_rows st
                (order_desc rrow_created_at (filter (\<lambda>l. rrow_is_active l = True) (resale_listings st)))
      in case resp_error r of
           Some e \<Rightarrow> []
         | None \<Rightarrow> map toResaleListing (case resp_data r of Some d \<Rightarrow> d | None \<Rightarrow> []))"

text \<open>
  \<^verbatim>\<open>.update(values).eq('id', id)\<close>: every row with that id is overwritten; the fault of
  the store is thrown and nothing is written.
\<close>

definition update_listings :: "store \<Rightarrow> string \<Rightarrow> (resale_row \<Rightarrow> resale_row) \<Rightarrow> (exn + unit) \<times> store" where
  "update_listings st i f =
     (case fault st of
        Some e \<Rightarrow> (Inl e, st)
      | None \<Rightarrow>
          (Inr (), st\<lparr>resale_listings := map (\<lambda>l. if rrow_id l = i then f l else l) (resale_listings st)\<rparr>))"

definition updateResaleListingQuantity :: "store \<Rightarrow> string \<Rightarrow> number \<Rightarrow> (exn + unit) \<times> store" where
  "updateResaleListingQuantity st i newQuantity =
     update_listings st i (\<lambda>l. l\<lparr>rrow_tokens_for_sale := newQuantity\<rparr>)"

definition deactivateResaleListing :: "store \<Rightarrow> string \<Rightarrow> (exn + unit) \<times> store" where
  "deactivateResaleListing st i = update_listings st i (\<lambda>l. l\<lparr>rrow_is_active := False\<rparr>)"


section \<open>HomePage.tsx: reconciliation\<close>

record CompanyWithOnChainData =
  metadata :: CompanyMetadata
  onChainInfo :: "CompanyInfo option"
  tokensSold :: number

text \<open>
  The body of the \<^verbatim>\<open>metadata.map\<close> in \<^verbatim>\<open>loadCompanies\<close>:
  \<^verbatim>\<open>
  const onChainInfo = await getCompanyInfo(meta.contractId);
  const ownerBalance = await getTokenBalance(meta.contractId, meta.owner_wallet);
  const tokensSold = onChainInfo
    ? Number(onChainInfo.total_supply) - Number(ownerBalance) : 0;
  return { metadata: meta, onChainInfo, tokensSold };
  \<close>
  Neither callee throws, so the \<^verbatim>\<open>catch\<close> around them is never entered.
  \<^verbatim>\<open>Number\<close> of a number is that number.
\<close>

definition loadCompany :: "world \<Rightarrow> CompanyMetadata \<Rightarrow> CompanyWithOnChainData" where
  "loadCompany w meta =
    (let info = getCompanyInfo w (contractId meta);
         ownerBalance = getTokenBalance w (contractId meta) (owner_wallet meta);
         sold = (case info of
                   Some i \<Rightarrow> js_sub (total_supply i) ownerBalance
                 | None \<Rightarrow> Fin 0)
     in \<lparr>metadata = meta, onChainInfo = info, tokensSold = sold\<rparr>)"

definition loadCompanies :: "world \<Rightarrow> store \<Rightarrow> CompanyWithOnChainData list" where
  "loadCompanies w st = map (loadCompany w) (getCompaniesMetadata st)"

text \<open>The token of native XLM on the test network, unless the build overrides it.\<close>

definition XLM_TOKEN_ADDRESS :: string where
  "XLM_TOKEN_ADDRESS = ''CDLZFC3SYJYDZT7K67VZ75HPJVIEUVNIXF47ZG2FB2RMQQVU2HHGCYSC''"

text \<open>What \<^verbatim>\<open>handleBuyResale\<close> tells the user.\<close>

datatype alert =
    ConnectWalletFirst
  | PurchaseSuccessful number number
  | PurchaseSoldOut
  | PurchaseFailed exn

text \<open>
  \<^verbatim>\<open>handleBuyResale(tokens, _totalAmount)\<close>, on the store, the connected wallet and the
  selected listing (the copy the page holds). It gives the store, the selection and the
  alert afterwards; \<open>None\<close> when the confirmation loop of the transfer never ends.
  The reload that follows a purchase only reads.
\<close>

definition handleBuyResale ::
  "world \<Rightarrow> store \<Rightarrow> string option \<Rightarrow> ResaleListing option \<Rightarrow> number
     \<Rightarrow> (store \<times> ResaleListing option \<times> alert) option"
where
  "handleBuyResale w st walletAddress selectedResale tokens =
    (case (walletAddress, selectedResale) of
       (Some wa, Some sel) \<Rightarrow>
         if wa = [] then Some (st, selectedResale, ConnectWalletFirst)
         else
          (case transferTokensWithPayment w wa (seller_wallet sel) (contract_id sel) tokens
                  (price_per_token sel) XLM_TOKEN_ADDRESS of
             None \<Rightarrow> None
           | Some (Inl e, tr) \<Rightarrow> Some (st, selectedResale, PurchaseFailed e)
           | Some (Inr u, tr) \<Rightarrow>
              (let remainingTokens = js_sub (tokens_for_sale sel) tokens in
               if js_gt remainingTokens (Fin 0) then
                 (case updateResaleListingQuantity st (listing_id sel) remainingTokens of
                    (Inl e, st') \<Rightarrow> Some (st', selectedResale, PurchaseFailed e)
                  | (Inr u', st') \<Rightarrow> Some (st', None, PurchaseSuccessful tokens remainingTokens))
               else
                 (case deactivateResaleListing st (listing_id sel) of
                    (Inl e, st') \<Rightarrow> Some (st', selectedResale, PurchaseFailed e)
                  | (Inr u', st') \<Rightarrow> Some (st', None, PurchaseSoldOut))))
     | _ \<Rightarrow> Some (st, selectedResale, ConnectWalletFirst))"

section \<open>InvestModal.tsx: the quantity a purchase submits\<close>

record modal =
  tokens :: number
  isProcessing :: bool

text \<open>\<^verbatim>\<open>useState(1)\<close> and \<^verbatim>\<open>useState(false)\<close>.\<close>

definition initialModal :: modal where
  "initialModal = \<lparr>tokens = Fin 1, isProcessing = False\<rparr>"

text \<open>
  \<^verbatim>\<open>
  const handleTokenChange = (e) => {
    const value = e.target.value;
    if (value === '') { setTokens(0); return; }
    const numValue = parseInt(value);
    if (!isNaN(numValue)) {
      setTokens(Math.max(0, Math.min(availableTokens, numValue)));
    }
  };
  \<close>
  \<^verbatim>\<open>parseInt\<close> is the built-in of the language, taken as a parameter.
\<close>

definition handleTokenChange :: "(string \<Rightarrow> number) \<Rightarrow> number \<Rightarrow> string \<Rightarrow> modal \<Rightarrow> modal" where
  "handleTokenChange parseInt availableTokens v m =
     (if v = [] then m\<lparr>tokens := Fin 0\<rparr>
      else let numValue = parseInt v in
        if \<not> isNaN numValue then m\<lparr>tokens := Math_max (Fin 0) (Math_min availableTokens numValue)\<rparr>
        else m)"

text \<open>The \<^verbatim>\<open>disabled\<close> attribute of the confirmation button.\<close>

definition confirmDisabled :: "number \<Rightarrow> modal \<Rightarrow> bool" where
  "confirmDisabled availableTokens m =
     (isProcessing m \<or> js_lt (tokens m) (Fin 1) \<or> js_gt (tokens m) availableTokens)"

text \<open>
  \<^verbatim>\<open>handleInvest\<close> up to its call \<^verbatim>\<open>onInvest(tokens, totalAmount)\<close>: the state and the
  calls made (none after the alert for a quantity below 1).
\<close>

definition handleInvest :: "number \<Rightarrow> modal \<Rightarrow> modal \<times> (number \<times> number) list" where
  "handleInvest tokenPrice m =
     (if js_lt (tokens m) (Fin 1) then (m, [])
      else (m\<lparr>isProcessing := True\<rparr>, [(tokens m, js_mul (tokens m) tokenPrice)]))"

text \<open>
  What can happen to an open modal: the quantity field changes, the confirmation button
  is clicked (a disabled button does not call its handler), or the pending
  \<^verbatim>\<open>onInvest\<close> settles.
\<close>

datatype modal_event = Change string | ClickConfirm | Settled

fun modal_step ::
  "(string \<Rightarrow> number) \<Rightarrow> number \<Rightarrow> number \<Rightarrow> modal \<Rightarrow> modal_event \<Rightarrow> modal \<times> (number \<times> number) list"
where
  "modal_step parseInt tokenPrice availableTokens m (Change v) =
     (handleTokenChange parseInt availableTokens v m, [])"
| "modal_step parseInt tokenPrice availableTokens m ClickConfirm =
     (if confirmDisabled availableTokens m then (m, []) else handleInvest tokenPrice m)"
| "modal_step parseInt tokenPrice availableTokens m Settled = (m\<lparr>isProcessing := False\<rparr>, [])"

text \<open>All calls of \<^verbatim>\<open>onInvest\<close> a sequence of events leads to, in order.\<close>

fun modal_run ::
  "(string \<Rightarrow> number) \<Rightarrow> number \<Rightarrow> number \<Rightarrow> modal \<Rightarrow> modal_event list \<Rightarrow> (number \<times> number) list"
where
  "modal_run parseInt tokenPrice availableTokens m [] = []"
| "modal_run parseInt tokenPrice availableTokens m (ev # evs) =
     (let (m', calls) = modal_step parseInt tokenPrice availableTokens m ev
      in calls @ modal_run parseInt tokenPrice availableTokens m' evs)"


section \<open>Example collaborators\<close>

text \<open>
  A network that accepts every contract and address, answers a dry run with \<open>sim\<close>, a
  submission with status \<open>st\<close>, and the \<open>k\<close>-th status request with \<open>polls k\<close>; a wallet
  that signs.
\<close>

definition exampleWorld :: "simulation \<Rightarrow> sendStatus \<Rightarrow> (nat \<Rightarrow> getResponse) \<Rightarrow> world" where
  "exampleWorld sim st polls =
     \<lparr>newContract = Inr,
      addressCheck = (\<lambda>a. None),
      getAccount = (\<lambda>a. Inr \<lparr>accountId = a, sequence = 7\<rparr>),
      simulateTransaction = (\<lambda>t. Inr sim),
      signTransaction = (\<lambda>a s. Inr ''signed''),
      fromXDR = Inr,
      sendTransaction = (\<lambda>e. Inr \<lparr>send_status = st, send_hash = ''h1''\<rparr>),
      getTransaction = (\<lambda>k h. Inr (polls k))\<rparr>"

text \<open>Status requests answered \<open>NOT_FOUND\<close> twice, then with \<open>final\<close>.\<close>

definition thirdPoll :: "getResponse \<Rightarrow> nat \<Rightarrow> getResponse" where
  "thirdPoll final k =
     (if k < 2 then \<lparr>get_status = NOT_FOUND, returnValue = None\<rparr> else final)"

text \<open>A network whose dry runs fail for the method \<open>balance_of\<close> only.\<close>

definition balanceFailsWorld :: "scval \<Rightarrow> world" where
  "balanceFailsWorld info =
     (exampleWorld (SimulationSuccess (Some info)) PENDING (thirdPoll \<lparr>get_status = SUCCESS, returnValue = None\<rparr>))
       \<lparr>simulateTransaction := (\<lambda>t. if tx_method t = ''balance_of''
                                     then Inr (SimulationFailure ''HostError'')
                                     else Inr (SimulationSuccess (Some info)))\<rparr>"

text \<open>A store with two listings and two companies.\<close>

definition exampleListing :: resale_row where
  "exampleListing =
     \<lparr>rrow_id = ''L1'', rrow_company_id = ''C1'', rrow_seller_wallet = ''GSELLER'',
      rrow_tokens_for_sale = Fin 100, rrow_price_per_token = Fin 2, rrow_is_active = True,
      rrow_created_at = 10\<rparr>"

definition exampleCompany :: company_row where
  "exampleCompany =
     \<lparr>row_name = ''Acme'', row_description = ''d'', row_logo_url = [],
      row_target_amount = Fin 1000, row_token_price = Fin 2, row_wallet_address = ''GOWNER'',
      row_contract_id = Some ''C1'', row_created_at = 5\<rparr>"

definition exampleStore :: store where
  "exampleStore =
     \<lparr>fault = None,
      companies = [exampleCompany, exampleCompany\<lparr>row_contract_id := Some ''C2'', row_created_at := 9\<rparr>],
      resale_listings =
        [exampleListing\<lparr>rrow_id := ''L0'', rrow_is_active := False, rrow_created_at := 20\<rparr>,
         exampleListing,
         exampleListing\<lparr>rrow_id := ''L2'', rrow_created_at := 30\<rparr>]\<rparr>"


text \<open>A reading of the quantity field that knows two inputs.\<close>

definition exampleParseInt :: "string \<Rightarrow> number" where
  "exampleParseInt v = (if v = ''500'' then Fin 500 else if v = ''3'' then Fin 3 else NaN)"

text \<open>A state of the contract, as \<^verbatim>\<open>get_company_info\<close> returns it.\<close>

definition exampleInfo :: scval where
  "exampleInfo = ScvMap [(''name'', ScvString ''Acme''), (''symbol'', ScvString ''ACM''),
     (''total_supply'', ScvI128 1000), (''owner'', ScvAddress ''GOWNER''),
     (''equity_percent'', ScvU32 10), (''description'', ScvString []),
     (''token_price'', ScvI128 20000000), (''target_amount'', ScvI128 10000000000)]"

section \<open>Properties of the number model\<close>

lemma pow_nat_powi: "0 \<le> n \<Longrightarrow> (2::rat) ^ nat n = 2 powi n"
  by (simp add: power_int_def)

lemma ilog2_bounds:
  assumes "0 < x"
  shows "2 powi (ilog2 x) \<le> x \<and> x < 2 powi (ilog2 x + 1)"
proof -
  obtain a b where q: "quotient_of x = (a, b)" by (cases "quotient_of x")
  have b: "0 < b" using q quotient_of_denom_pos by blast
  have x: "x = of_int a / of_int b" using q quotient_of_div by blast
  have a: "0 < a" using assms b x by (simp add: zero_less_divide_iff)
  define la where "la = bitlen a"
  define lb where "lb = bitlen b"
  have la: "2 ^ nat (la - 1) \<le> a" "a < 2 ^ nat la" using bitlen_bounds[OF a] la_def by auto
  have lb: "2 ^ nat (lb - 1) \<le> b" "b < 2 ^ nat lb" using bitlen_bounds[OF b] lb_def by auto
  have la1: "1 \<le> la" using a la_def by (simp add: bitlen_alt_def)
  have lb1: "1 \<le> lb" using b lb_def by (simp add: bitlen_alt_def)
  have ra: "(2::rat) powi (la - 1) \<le> of_int a" "rat_of_int a < 2 powi la"
  proof -
    have "rat_of_int (2 ^ nat (la - 1)) \<le> of_int a" using la(1) of_int_le_iff by blast
    then show "(2::rat) powi (la - 1) \<le> of_int a" using la1 by (simp add: pow_nat_powi)
    have "rat_of_int a < of_int (2 ^ nat la)" using la(2) of_int_less_iff by blast
    then show "rat_of_int a < 2 powi la" using la1 by (simp add: pow_nat_powi)
  qed
  have rb: "(2::rat) powi (lb - 1) \<le> of_int b" "rat_of_int b < 2 powi lb"
  proof -
    have "rat_of_int (2 ^ nat (lb - 1)) \<le> of_int b" using lb(1) of_int_le_iff by blast
    then show "(2::rat) powi (lb - 1) \<le> of_int b" using lb1 by (simp add: pow_nat_powi)
    have "rat_of_int b < of_int (2 ^ nat lb)" using lb(2) of_int_less_iff by blast
    then show "rat_of_int b < 2 powi lb" using lb1 by (simp add: pow_nat_powi)
  qed
  have k: "ilog2 x = (if 2 powi (la - lb) \<le> x then la - lb else la - lb - 1)"
    by (simp add: ilog2_def q la_def lb_def)
  have up: "x < 2 powi (la - lb + 1)"
  proof -
    have "rat_of_int a / of_int b < 2 powi la / 2 powi (lb - 1)"
      using a ra(2) rb(1) by (intro frac_less) simp_all
    also have "\<dots> = 2 powi (la - (lb - 1))" by (simp add: power_int_diff)
    finally show ?thesis by (simp add: x algebra_simps)
  qed
  have lo: "2 powi (la - lb - 1) < x"
  proof -
    have "(2::rat) powi (la - 1) / 2 powi lb < of_int a / of_int b"
      using b ra(1) rb(2) by (intro frac_less2) simp_all
    moreover have "(2::rat) powi (la - 1) / 2 powi lb = 2 powi (la - 1 - lb)"
      by (simp add: power_int_diff)
    ultimately show ?thesis by (simp add: x algebra_simps)
  qed
  show ?thesis using k up lo by (auto simp: not_le)
qed

lemma powi_less_cancel: "(2::rat) powi a < 2 powi b \<Longrightarrow> a < b"
  by (metis power_int_increasing not_less one_le_numeral)

lemma powi_le_cancel: "(2::rat) powi a \<le> 2 powi b \<Longrightarrow> a \<le> b"
  by (metis power_int_strict_increasing not_less one_less_numeral_iff semiring_norm(76))

lemma ilog2_eqI:
  assumes "2 powi k \<le> x" "x < 2 powi (k + 1)"
  shows "ilog2 x = k"
proof -
  have "0 < (2::rat) powi k" by simp
  then have x: "0 < x" using assms(1) by linarith
  note b = ilog2_bounds[OF x]
  have "(2::rat) powi k < 2 powi (ilog2 x + 1)" using assms(1) b by linarith
  then have 1: "k < ilog2 x + 1" by (rule powi_less_cancel)
  have "(2::rat) powi (ilog2 x) < 2 powi (k + 1)" using assms(2) b by linarith
  then have 2: "ilog2 x < k + 1" by (rule powi_less_cancel)
  show ?thesis using 1 2 by simp
qed

lemma roundHalfEven_eqI:
  assumes "of_int n - 1 / 2 < q" "q < of_int n + 1 / 2"
  shows "roundHalfEven q = n"
proof -
  have "\<lfloor>q\<rfloor> = n \<or> \<lfloor>q\<rfloor> = n - 1" using assms by linarith
  then show ?thesis
  proof
    assume f: "\<lfloor>q\<rfloor> = n"
    then have "q - of_int n < 1 / 2" using assms by linarith
    then show ?thesis by (simp add: roundHalfEven_def f)
  next
    assume f: "\<lfloor>q\<rfloor> = n - 1"
    then have "1 / 2 < q - of_int (n - 1)" using assms by simp
    then show ?thesis by (simp add: roundHalfEven_def f)
  qed
qed

lemma roundHalfEven_of_int: "roundHalfEven (of_int n) = n"
  by (rule roundHalfEven_eqI) simp_all

lemma roundHalfEven_bounds: "of_int (roundHalfEven q) - 1 / 2 \<le> q \<and> q \<le> of_int (roundHalfEven q) + 1 / 2"
  unfolding roundHalfEven_def Let_def by (auto; linarith)

lemma toDouble_pos_eqI:
  assumes k: "2 powi k \<le> x" "x < 2 powi (k + 1)"
    and e: "e = max (k - 52) (- 1074)"
    and n: "(of_int n - 1 / 2) * 2 powi e < x" "x < (of_int n + 1 / 2) * 2 powi e"
    and r: "of_int n * 2 powi e < (2::rat) powi 1024"
  shows "toDouble x = Fin (of_int n * 2 powi e)"
proof -
  have p: "0 < (2::rat) powi e" by simp
  have "0 < (2::rat) powi k" by simp
  then have x: "0 < x" using k(1) by linarith
  have l: "ilog2 x = k" using k by (rule ilog2_eqI)
  have "of_int n - 1 / 2 < x / 2 powi e" "x / 2 powi e < of_int n + 1 / 2"
    using n p by (simp_all add: pos_less_divide_eq pos_divide_less_eq)
  then have "roundHalfEven (x / 2 powi e) = n" by (rule roundHalfEven_eqI)
  then show ?thesis using x r e l by (simp add: toDouble_def Let_def)
qed

lemma toDouble_minus:
  "toDouble (- x) = (case toDouble x of Fin r \<Rightarrow> Fin (- r) | PInf \<Rightarrow> NInf | NInf \<Rightarrow> PInf | NaN \<Rightarrow> NaN)"
  by (simp add: toDouble_def Let_def)

lemma toDouble_repr_lt:
  assumes n: "0 < n" "n < 2 ^ 53" and e: "- 1074 \<le> e"
    and r: "of_int n * 2 powi e < (2::rat) powi 1024"
  shows "toDouble (of_int n * 2 powi e) = Fin (of_int n * 2 powi e)"
proof -
  define y where "y = rat_of_int n * 2 powi e"
  have y: "0 < y" using n(1) by (simp add: y_def)
  define k where "k = ilog2 y"
  note b = ilog2_bounds[OF y, folded k_def]
  have "rat_of_int n < 2 ^ 53" using n(2) by (metis of_int_less_iff of_int_numeral of_int_power)
  then have "y < 2 ^ 53 * 2 powi e" by (simp add: y_def)
  also have "\<dots> = 2 powi (53 + e)" by (simp add: power_int_add)
  finally have "(2::rat) powi k < 2 powi (53 + e)" using b by linarith
  then have "k < 53 + e" by (rule powi_less_cancel)
  define e' where "e' = max (k - 52) (- 1074)"
  have e': "e' \<le> e" using \<open>k < 53 + e\<close> e by (simp add: e'_def)
  have "y / 2 powi e' = of_int n * 2 powi (e - e')" by (simp add: y_def power_int_diff)
  also have "\<dots> = of_int (n * 2 ^ nat (e - e'))" using e' by (simp add: pow_nat_powi)
  finally have q: "y / 2 powi e' = of_int (n * 2 ^ nat (e - e'))" .
  have "rat_of_int (roundHalfEven (y / 2 powi e')) * 2 powi e' = y / 2 powi e' * 2 powi e'"
    unfolding q roundHalfEven_of_int ..
  also have "\<dots> = y" by simp
  finally have "rat_of_int (roundHalfEven (y / 2 powi e')) * 2 powi e' = y" .
  then have "toDouble y = Fin y"
    using y r by (simp add: toDouble_def Let_def k_def[symmetric] e'_def[symmetric] y_def[symmetric])
  then show ?thesis by (simp add: y_def)
qed

lemma toDouble_repr_pos:
  assumes n: "0 < n" "n \<le> 2 ^ 53" and e: "- 1074 \<le> e"
    and r: "of_int n * 2 powi e < (2::rat) powi 1024"
  shows "toDouble (of_int n * 2 powi e) = Fin (of_int n * 2 powi e)"
proof (cases "n = 2 ^ 53")
  case False
  then show ?thesis using toDouble_repr_lt assms by simp
next
  case True
  have eq: "rat_of_int n * 2 powi e = of_int (2 ^ 52) * 2 powi (e + 1)"
    by (simp add: True power_int_add)
  show ?thesis unfolding eq
    by (rule toDouble_repr_lt) (use e r eq in simp_all)
qed

lemma toDouble_of_int:
  assumes "\<bar>i\<bar> \<le> 2 ^ 53"
  shows "toDouble (of_int i) = Fin (of_int i)"
proof -
  have pos: "toDouble (of_int j) = Fin (of_int j)" if "0 < j" "j \<le> 2 ^ 53" for j
  proof -
    have "rat_of_int j \<le> 2 ^ 53" using that(2) by (metis of_int_le_iff of_int_numeral of_int_power)
    then have "rat_of_int j * 2 powi 0 < 2 powi 1024" by simp
    then show ?thesis using toDouble_repr_pos[of j 0] that by simp
  qed
  consider "i = 0" | "0 < i" | "i < 0" by linarith
  then show ?thesis
  proof cases
    case 1 then show ?thesis by (simp add: toDouble_def)
  next
    case 2 then show ?thesis using pos assms by simp
  next
    case 3
    then have "toDouble (of_int (- i)) = Fin (of_int (- i))" using pos[of "- i"] assms by simp
    then show ?thesis using toDouble_minus[of "of_int (- i)"] by simp
  qed
qed


lemma toDouble_decompose:
  assumes "0 < x"
  obtains n e where "0 \<le> n" "n \<le> 2 ^ 53" "e = max (ilog2 x - 52) (- 1074)"
    "x / 2 powi e \<le> rat_of_int n + 1 / 2"
    "toDouble x = (if 2 powi 1024 \<le> of_int n * (2::rat) powi e then PInf else Fin (of_int n * 2 powi e))"
proof -
  define k where "k = ilog2 x"
  define e where "e = max (k - 52) (- 1074)"
  define q where "q = x / 2 powi e"
  define n where "n = roundHalfEven q"
  note b = ilog2_bounds[OF assms, folded k_def]
  have q0: "0 < q" using assms by (simp add: q_def)
  have "q < 2 powi (k + 1) / 2 powi e" using b by (simp add: q_def divide_strict_right_mono)
  also have "\<dots> = 2 powi (k + 1 - e)" by (simp add: power_int_diff)
  also have "\<dots> \<le> 2 powi 53" by (rule power_int_increasing) (simp_all add: e_def)
  finally have q53: "q < 2 ^ 53" by simp
  note rb = roundHalfEven_bounds[of q, folded n_def]
  have "rat_of_int n > - 1" using rb q0 by linarith
  then have n0: "0 \<le> n" by linarith
  have "rat_of_int n < 2 ^ 53 + 1" using rb q53 by linarith
  then have "rat_of_int n < of_int (2 ^ 53 + 1)" by simp
  then have "n < 2 ^ 53 + 1" using of_int_less_iff by blast
  then have n53: "n \<le> 2 ^ 53" by simp
  have "toDouble x = (if 2 powi 1024 \<le> of_int n * (2::rat) powi e then PInf else Fin (of_int n * 2 powi e))"
    using assms by (simp add: toDouble_def Let_def k_def e_def q_def n_def)
  moreover have "e = max (ilog2 x - 52) (- 1074)" by (simp add: e_def k_def)
  moreover have "x / 2 powi e \<le> rat_of_int n + 1 / 2" using rb by (simp add: q_def)
  ultimately show ?thesis using that n0 n53 by blast
qed

lemma toDouble_idem_pos:
  assumes "0 < x" "toDouble x = Fin r"
  shows "toDouble r = Fin r"
proof -
  obtain n e where ne: "0 \<le> n" "n \<le> 2 ^ 53" "e = max (ilog2 x - 52) (- 1074)"
    "toDouble x = (if 2 powi 1024 \<le> of_int n * (2::rat) powi e then PInf else Fin (of_int n * 2 powi e))"
    using toDouble_decompose[OF assms(1)] by metis
  have r: "r = of_int n * 2 powi e" "of_int n * 2 powi e < (2::rat) powi 1024"
    using ne(4) assms(2) by (auto split: if_splits)
  show ?thesis
  proof (cases "n = 0")
    case True
    then show ?thesis by (simp add: r toDouble_def)
  next
    case False
    then have "0 < n" using ne(1) by simp
    then show ?thesis unfolding r(1) using ne r(2) by (intro toDouble_repr_pos) simp_all
  qed
qed

lemma toDouble_idem:
  assumes "toDouble x = Fin r"
  shows "toDouble r = Fin r"
proof -
  consider "x = 0" | "0 < x" | "x < 0" by linarith
  then show ?thesis
  proof cases
    case 1 then show ?thesis using assms by (simp add: toDouble_def)
  next
    case 2 then show ?thesis using assms toDouble_idem_pos by blast
  next
    case 3
    have "toDouble (- x) = Fin (- r)" using assms by (simp add: toDouble_minus)
    then have "toDouble (- r) = Fin (- r)" using toDouble_idem_pos[of "- x" "- r"] 3 by simp
    then show ?thesis using toDouble_minus[of "- r"] by simp
  qed
qed

lemma is_double_toDouble: "is_double (toDouble x)"
  by (cases "toDouble x") (simp_all add: toDouble_idem)

lemma toDouble_positive:
  assumes "2 powi (- 1074) \<le> y"
  shows "js_lt (Fin 0) (toDouble y)"
proof -
  have "0 < (2::rat) powi (- 1074)" by simp
  then have y: "0 < y" using assms by linarith
  obtain n e where ne: "e = max (ilog2 y - 52) (- 1074)"
    "y / 2 powi e \<le> rat_of_int n + 1 / 2"
    "toDouble y = (if 2 powi 1024 \<le> of_int n * (2::rat) powi e then PInf else Fin (of_int n * 2 powi e))"
    using toDouble_decompose[OF y] by metis
  note b = ilog2_bounds[OF y]
  have "(2::rat) powi (- 1074) < 2 powi (ilog2 y + 1)" using assms b by linarith
  then have "- 1074 < ilog2 y + 1" by (rule powi_less_cancel)
  then have ek: "e \<le> ilog2 y" using ne(1) by simp
  have "(1::rat) \<le> 2 powi (ilog2 y - e)" using ek by simp
  also have "\<dots> = 2 powi (ilog2 y) / 2 powi e" by (simp add: power_int_diff)
  also have "\<dots> \<le> y / 2 powi e" using b by (simp add: divide_right_mono)
  finally have "1 / 2 \<le> rat_of_int n" using ne(2) by linarith
  then have "0 < rat_of_int n" by linarith
  then have "0 < rat_of_int n * 2 powi e" by simp
  then show ?thesis using ne(3) by simp
qed

lemma double_grid:
  assumes "toDouble x = Fin x"
  shows "\<exists>j::int. x = of_int j * 2 powi (- 1074)"
proof -
  have pos: "\<exists>j::int. z = of_int j * 2 powi (- 1074)" if z0: "0 < z" and zz: "toDouble z = Fin z" for z
  proof -
    obtain n e where ne: "e = max (ilog2 z - 52) (- 1074)"
      "toDouble z = (if 2 powi 1024 \<le> of_int n * (2::rat) powi e then PInf else Fin (of_int n * 2 powi e))"
      using toDouble_decompose[OF z0] by metis
    have z: "z = of_int n * 2 powi e" using ne(2) zz by (auto split: if_splits)
    have e: "0 \<le> e + 1074" using ne(1) by simp
    have "(2::rat) powi (e + 1074) * 2 powi (- 1074) = 2 powi (e + 1074 + (- 1074))"
      by (rule power_int_add[symmetric]) simp
    then have "(2::rat) powi e = 2 powi (e + 1074) * 2 powi (- 1074)"
      by (simp only: add.assoc add.right_inverse add_0_right)
    also have "\<dots> = of_int (2 ^ nat (e + 1074)) * 2 powi (- 1074)"
      using e by (simp add: pow_nat_powi)
    finally have "z = of_int (n * 2 ^ nat (e + 1074)) * 2 powi (- 1074)"
      unfolding z by (simp only: of_int_mult mult.assoc)
    then show ?thesis by blast
  qed
  consider "x = 0" | "0 < x" | "x < 0" by linarith
  then show ?thesis
  proof cases
    case 1 then show ?thesis by (intro exI[of _ 0]) simp
  next
    case 2 then show ?thesis using pos assms by blast
  next
    case 3
    have "toDouble (- x) = Fin (- x)" using assms by (simp add: toDouble_minus)
    then obtain j :: int where "- x = of_int j * 2 powi (- 1074)" using pos[of "- x"] 3 by auto
    then have "x = of_int (- j) * 2 powi (- 1074)" by simp
    then show ?thesis by blast
  qed
qed

lemma js_sub_positive:
  assumes "is_double (Fin a)" "is_double (Fin b)" "b < a"
  shows "js_gt (js_sub (Fin a) (Fin b)) (Fin 0)"
proof -
  define g where "g = (2::rat) powi (- 1074)"
  have g: "0 < g" unfolding g_def by (rule zero_less_power_int) simp
  obtain i j :: int where ij: "a = of_int i * g" "b = of_int j * g"
    using assms(1,2) double_grid unfolding g_def by fastforce
  have "rat_of_int j < of_int i" using assms(3) g unfolding ij by simp
  then have "j < i" using of_int_less_iff by blast
  then have "1 \<le> i - j" by simp
  then have "(1::rat) \<le> of_int (i - j)" using of_int_le_iff by fastforce
  then have "(1::rat) * g \<le> of_int (i - j) * g"
    using g by (intro mult_right_mono) simp_all
  also have "\<dots> = a - b" by (simp add: ij algebra_simps)
  finally have "g \<le> a - b" by simp
  then have "js_lt (Fin 0) (toDouble (a - b))" unfolding g_def by (rule toDouble_positive)
  then show ?thesis by (simp add: js_gt_def)
qed

lemma js_sub_zero: "is_double x \<Longrightarrow> js_sub x (Fin 0) = x"
  by (cases x) simp_all

subsection \<open>Values of the rounding at the amounts of the scenarios\<close>

text \<open>The literal \<open>0.10\<close> and its product with \<open>10_000_000\<close>.\<close>

lemma literal_tenth: "toDouble (1 / 10) = Fin (3602879701896397 / 36028797018963968)"
  using toDouble_pos_eqI[where x="1/10" and k="-4" and e="-56" and n=7205759403792794]
  by simp

lemma product_tenth: "toDouble (3602879701896397 / 36028797018963968 * 10000000) = Fin 1000000"
  using toDouble_pos_eqI[where x="3602879701896397/36028797018963968 * 10000000" and k="19" and e="-33"
      and n="1000000 * 2 ^ 33"]
  by simp

lemma toStroops_tenth: "toStroops (toDouble (1 / 10)) = Fin 1000000"
  by (simp only: toStroops_def literal_tenth js_mul.simps product_tenth Math_floor.simps) simp

text \<open>
  The product is rounded before the floor is taken: the number nearest to \<open>0.0000021\<close>
  times \<open>10_000_000\<close> is a number just below \<open>21\<close>, and the code sends \<open>20\<close> stroops.
\<close>

lemma literal_21: "toDouble (21 / 10000000) = Fin (4958484807013127 / 2361183241434822606848)"
  using toDouble_pos_eqI[where x="21/10000000" and k="-19" and e="-71" and n=4958484807013127]
  by simp

lemma product_21: "toDouble (4958484807013127 / 2361183241434822606848 * 10000000) = Fin (5910974510923775 / 281474976710656)"
  using toDouble_pos_eqI[where x="4958484807013127 / 2361183241434822606848 * 10000000" and k="4" and e="-48"
      and n="5910974510923775"]
  by simp

lemma toStroops_21: "toStroops (toDouble (21 / 10000000)) = Fin 20"
proof -
  have "\<lfloor>(5910974510923775::rat) / 281474976710656\<rfloor> = 20"
    by (simp add: floor_eq_iff)
  then show ?thesis
    by (simp only: toStroops_def literal_21 js_mul.simps product_21 Math_floor.simps) simp
qed


section \<open>Amount encoding\<close>

lemma wrapI128_id: "- (2 ^ 127) \<le> n \<Longrightarrow> n < 2 ^ 127 \<Longrightarrow> wrapI128 n = n"
  by (simp add: wrapI128_def)

text \<open>A whole number within the signed 128-bit range is sent as that 128-bit integer.\<close>

lemma numberToScVal_int:
  assumes "- (2 ^ 127) \<le> n" "n < 2 ^ 127"
  shows "numberToScVal (Fin (of_int n)) = Inr (ScvI128 n)"
  using wrapI128_id[OF assms] by simp

text \<open>
  What holds of the encoding. The amount \<open>0.10\<close> gives \<open>1_000_000\<close> stroops, sent as
  the 128-bit integer \<open>1000000\<close>, and a wire integer up to \<open>2 ^ 53\<close> in magnitude decodes
  to the number of the same value, so \<open>1_000_000n\<close> decodes to \<open>1_000_000\<close>.
\<close>

lemma amount_scenario_A:
  "toStroops (toDouble (1 / 10)) = Fin 1000000"
  "numberToScVal (toStroops (toDouble (1 / 10))) = Inr (ScvI128 1000000)"
  "\<bar>n\<bar> \<le> 2 ^ 53 \<Longrightarrow> bigIntToNumber (scValToNative (ScvI128 n)) = Fin (of_int n)"
  "bigIntToNumber (scValToNative (ScvI128 1000000)) = Fin 1000000"
proof -
  show 1: "toStroops (toDouble (1 / 10)) = Fin 1000000" by (rule toStroops_tenth)
  show "numberToScVal (toStroops (toDouble (1 / 10))) = Inr (ScvI128 1000000)"
    unfolding 1 using numberToScVal_int[of 1000000] by simp
  show "\<bar>n\<bar> \<le> 2 ^ 53 \<Longrightarrow> bigIntToNumber (scValToNative (ScvI128 n)) = Fin (of_int n)"
    by (simp add: toDouble_of_int)
  show "bigIntToNumber (scValToNative (ScvI128 1000000)) = Fin 1000000"
    using toDouble_of_int[of 1000000] by simp
qed

text \<open>
  C5, as the code has it at the amount \<open>0.0000021\<close>. The floor of
  \<open>0.0000021 * 10_000_000\<close> is \<open>21\<close>. The code multiplies the number nearest to
  \<open>0.0000021\<close> by \<open>10_000_000\<close> in binary64 arithmetic, which gives the number
  \<open>5910974510923775 / 2 ^ 48\<close>, just below \<open>21\<close>; its floor is \<open>20\<close>, and \<open>20\<close> is
  the 128-bit integer sent to the contract.
\<close>

theorem toStroops_loses_a_stroop:
  "\<lfloor>(21 / 10000000 :: rat) * 10000000\<rfloor> = 21
   \<and> js_mul (toDouble (21 / 10000000)) (Fin 10000000) = Fin (5910974510923775 / 2 ^ 48)
   \<and> toStroops (toDouble (21 / 10000000)) = Fin 20
   \<and> numberToScVal (toStroops (toDouble (21 / 10000000))) = Inr (ScvI128 20)"
proof -
  have 1: "\<lfloor>(21 / 10000000 :: rat) * 10000000\<rfloor> = 21" by simp
  have 2: "js_mul (toDouble (21 / 10000000)) (Fin 10000000) = Fin (5910974510923775 / 2 ^ 48)"
    by (simp only: literal_21 js_mul.simps product_21) simp
  have 3: "numberToScVal (Fin 20) = Inr (ScvI128 20)"
    using numberToScVal_int[of 20] by simp
  show ?thesis using 1 2 3 by (simp only: toStroops_21 simp_thms)
qed


section \<open>The confirmation loop\<close>

lemma pollTransaction_finishes:
  assumes "\<forall>i\<le>K. getTransaction w i h = Inr (rs i)"
    and "\<forall>i<K. get_status (rs i) = NOT_FOUND"
    and "get_status (rs K) \<noteq> NOT_FOUND"
    and "k \<le> K"
  shows "pollTransaction w h k (rs k) tr = Some (Inr (rs K), tr @ pollTrace h (K - k))"
  using assms(4)
proof (induction "K - k" arbitrary: k tr)
  case 0
  then have "k = K" by simp
  then show ?case using assms(3) by (subst pollTransaction.simps) (simp add: pollTrace_def)
next
  case (Suc n)
  then have k: "k < K" "n = K - Suc k" "Suc k \<le> K" by simp_all
  have nf: "get_status (rs k) = NOT_FOUND" using assms(2) k(1) by simp
  have nx: "getTransaction w (Suc k) h = Inr (rs (Suc k))" using assms(1) k(3) by simp
  have "K - k = Suc (K - Suc k)" using k by simp
  then have tr: "pollTrace h (K - k) = [EvSleep 1000, EvGetTransaction h] @ pollTrace h (K - Suc k)"
    by (simp add: pollTrace_def)
  show ?case
    by (subst pollTransaction.simps) (simp add: nf nx Suc.hyps(1)[OF k(2) k(3)] tr)
qed

lemma pollTransaction_diverges:
  assumes nf: "\<forall>i. \<exists>r. getTransaction w i h = Inr r \<and> get_status r = NOT_FOUND"
    and g: "get_status g = NOT_FOUND"
  shows "pollTransaction w h k g tr = None"
proof (rule ccontr)
  assume "pollTransaction w h k g tr \<noteq> None"
  then obtain y where y: "pollTransaction w h k g tr = Some y" by blast
  have "\<not> ((\<forall>i. \<exists>r. getTransaction w i h = Inr r \<and> get_status r = NOT_FOUND) \<and> get_status g = NOT_FOUND)"
  proof (rule pollTransaction.raw_induct[OF _ y,
        where P = "\<lambda>w h k g tr y. \<not> ((\<forall>i. \<exists>r. getTransaction w i h = Inr r \<and> get_status r = NOT_FOUND)
                      \<and> get_status g = NOT_FOUND)"])
    fix poll :: "world \<Rightarrow> string \<Rightarrow> nat \<Rightarrow> getResponse \<Rightarrow> event list \<Rightarrow> ((exn + getResponse) \<times> event list) option"
    fix w h k g tr y
    assume IH: "\<And>w h k g tr y. poll w h k g tr = Some y \<Longrightarrow>
        \<not> ((\<forall>i. \<exists>r. getTransaction w i h = Inr r \<and> get_status r = NOT_FOUND) \<and> get_status g = NOT_FOUND)"
    assume body: "(if get_status g = NOT_FOUND
        then case getTransaction w (Suc k) h of
               Inl e \<Rightarrow> Some (Inl e, tr @ [EvSleep 1000, EvGetTransaction h])
             | Inr r \<Rightarrow> poll w h (Suc k) r (tr @ [EvSleep 1000, EvGetTransaction h])
        else Some (Inr g, tr)) = Some y"
    show "\<not> ((\<forall>i. \<exists>r. getTransaction w i h = Inr r \<and> get_status r = NOT_FOUND) \<and> get_status g = NOT_FOUND)"
    proof
      assume c: "(\<forall>i. \<exists>r. getTransaction w i h = Inr r \<and> get_status r = NOT_FOUND) \<and> get_status g = NOT_FOUND"
      then obtain r where r: "getTransaction w (Suc k) h = Inr r" "get_status r = NOT_FOUND" by blast
      with body c have "poll w h (Suc k) r (tr @ [EvSleep 1000, EvGetTransaction h]) = Some y" by simp
      from IH[OF this] c r show False by blast
    qed
  qed
  then show False using nf g by blast
qed

lemma pollTransaction_trace:
  assumes a: "pollTransaction w h k g tr = Some y"
  shows "\<exists>suf. snd y = tr @ suf \<and> set suf \<subseteq> {EvSleep 1000, EvGetTransaction h}"
proof (rule pollTransaction.raw_induct[OF _ a,
        where P = "\<lambda>w h k g tr y. \<exists>suf. snd y = tr @ suf \<and> set suf \<subseteq> {EvSleep 1000, EvGetTransaction h}"])
  fix poll :: "world \<Rightarrow> string \<Rightarrow> nat \<Rightarrow> getResponse \<Rightarrow> event list \<Rightarrow> ((exn + getResponse) \<times> event list) option"
  fix w h k g tr y
  assume IH: "\<And>w h k g tr y. poll w h k g tr = Some y \<Longrightarrow>
      \<exists>suf. snd y = tr @ suf \<and> set suf \<subseteq> {EvSleep 1000, EvGetTransaction h}"
  assume body: "(if get_status g = NOT_FOUND
      then case getTransaction w (Suc k) h of
             Inl e \<Rightarrow> Some (Inl e, tr @ [EvSleep 1000, EvGetTransaction h])
           | Inr r \<Rightarrow> poll w h (Suc k) r (tr @ [EvSleep 1000, EvGetTransaction h])
      else Some (Inr g, tr)) = Some y"
  show "\<exists>suf. snd y = tr @ suf \<and> set suf \<subseteq> {EvSleep 1000, EvGetTransaction h}"
  proof (cases "get_status g = NOT_FOUND")
    case False
    then have "y = (Inr g, tr)" using body by simp
    then show ?thesis by simp
  next
    case nf: True
    show ?thesis
    proof (cases "getTransaction w (Suc k) h")
      case (Inl e)
      then have "y = (Inl e, tr @ [EvSleep 1000, EvGetTransaction h])" using body nf by simp
      then show ?thesis by simp
    next
      case (Inr r)
      then have "poll w h (Suc k) r (tr @ [EvSleep 1000, EvGetTransaction h]) = Some y"
        using body nf by simp
      from IH[OF this] obtain suf where
        "snd y = (tr @ [EvSleep 1000, EvGetTransaction h]) @ suf" "set suf \<subseteq> {EvSleep 1000, EvGetTransaction h}"
        by blast
      then have "snd y = tr @ ([EvSleep 1000, EvGetTransaction h] @ suf)
        \<and> set ([EvSleep 1000, EvGetTransaction h] @ suf) \<subseteq> {EvSleep 1000, EvGetTransaction h}"
        by simp
      then show ?thesis by blast
    qed
  qed
qed

lemma exampleWorld_simps:
  "newContract (exampleWorld sim st polls) = Inr"
  "addressCheck (exampleWorld sim st polls) a = None"
  "getAccount (exampleWorld sim st polls) a = Inr \<lparr>accountId = a, sequence = 7\<rparr>"
  "simulateTransaction (exampleWorld sim st polls) t = Inr sim"
  "signTransaction (exampleWorld sim st polls) asm s = Inr ''signed''"
  "fromXDR (exampleWorld sim st polls) = Inr"
  "sendTransaction (exampleWorld sim st polls) e = Inr \<lparr>send_status = st, send_hash = ''h1''\<rparr>"
  "getTransaction (exampleWorld sim st polls) k h = Inr (polls k)"
  by (simp_all add: exampleWorld_def)

lemma pollTransaction_thirdPoll:
  assumes "get_status final \<noteq> NOT_FOUND"
  shows "pollTransaction (exampleWorld sim st (thirdPoll final)) h 0 \<lparr>get_status = NOT_FOUND, returnValue = None\<rparr> tr
     = Some (Inr final, tr @ [EvSleep 1000, EvGetTransaction h, EvSleep 1000, EvGetTransaction h])"
proof -
  have "pollTransaction (exampleWorld sim st (thirdPoll final)) h 0 (thirdPoll final 0) tr
      = Some (Inr (thirdPoll final 2), tr @ pollTrace h (2 - 0))"
    using assms by (intro pollTransaction_finishes) (simp_all add: exampleWorld_simps thirdPoll_def)
  then show ?thesis by (simp add: thirdPoll_def pollTrace_def numeral_2_eq_2)
qed

section \<open>Simulation before signing\<close>

lemma invokeContract_signs_after_simulation:
  assumes inv: "invokeContract w wa cid m ps = Some (res, tr)"
    and sg: "EvSign a s \<in> set tr"
  shows "\<exists>t rv post. tr = [EvGetAccount wa, EvSimulate t] @ EvSign a s # post
           \<and> simulateTransaction w t = Inr (SimulationSuccess rv)
           \<and> (\<forall>a' s'. EvSign a' s' \<notin> set post)"
proof -
  obtain c where c: "newContract w cid = Inr c"
    using inv sg by (cases "newContract w cid") (auto simp: invokeContract_def Let_def)
  obtain acc where acc: "getAccount w wa = Inr acc"
    using inv sg c by (cases "getAccount w wa") (auto simp: invokeContract_def Let_def)
  define t where "t = buildTransaction acc c m ps"
  obtain sim where sim: "simulateTransaction w t = Inr sim"
    using inv sg c acc by (cases "simulateTransaction w t") (auto simp: invokeContract_def Let_def t_def)
  obtain r where rv: "sim = SimulationSuccess (Some r)"
    using inv sg c acc sim
    by (cases "(t, sim)" rule: assembleTransaction.cases) (auto simp: invokeContract_def Let_def t_def)
  define asm where "asm = \<lparr>as_transaction = t, as_simulation = SimulationSuccess (Some r)\<rparr>"
  define tr3 where "tr3 = [EvGetAccount wa, EvSimulate t, EvSign asm wa]"
  have "\<exists>post. tr = tr3 @ post \<and> (\<forall>a' s'. EvSign a' s' \<notin> set post)"
  proof (cases "signTransaction w asm wa")
    case (Inl e)
    then show ?thesis using inv c acc sim rv
      by (auto simp: invokeContract_def Let_def t_def[symmetric] asm_def[symmetric] tr3_def)
  next
    case xdr: (Inr xdr)
    show ?thesis
    proof (cases "fromXDR w xdr")
      case (Inl e)
      then show ?thesis using inv c acc sim rv xdr
        by (auto simp: invokeContract_def Let_def t_def[symmetric] asm_def[symmetric] tr3_def)
    next
      case env: (Inr env)
      show ?thesis
      proof (cases "sendTransaction w env")
        case (Inl e)
        then show ?thesis using inv c acc sim rv xdr env
          by (auto simp: invokeContract_def Let_def t_def[symmetric] asm_def[symmetric] tr3_def)
      next
        case resp: (Inr resp)
        show ?thesis
        proof (cases "send_status resp = PENDING")
          case False
          then show ?thesis using inv c acc sim rv xdr env resp
            by (auto simp: invokeContract_def Let_def t_def[symmetric] asm_def[symmetric] tr3_def)
        next
          case pending: True
          show ?thesis
          proof (cases "getTransaction w 0 (send_hash resp)")
            case (Inl e)
            then show ?thesis using inv c acc sim rv xdr env resp pending
              by (auto simp: invokeContract_def Let_def t_def[symmetric] asm_def[symmetric] tr3_def)
          next
            case g: (Inr g)
            define tr5 where "tr5 = tr3 @ [EvSend env, EvGetTransaction (send_hash resp)]"
            obtain y where y: "pollTransaction w (send_hash resp) 0 g tr5 = Some y" "snd y = tr"
              using inv c acc sim rv xdr env resp pending g
              by (auto simp: invokeContract_def Let_def t_def[symmetric] asm_def[symmetric] tr3_def tr5_def
                  split: option.splits sum.splits if_splits)
            from pollTransaction_trace[OF y(1)] obtain suf where
              "tr = tr5 @ suf" "set suf \<subseteq> {EvSleep 1000, EvGetTransaction (send_hash resp)}"
              using y(2) by auto
            then have "tr = tr3 @ ([EvSend env, EvGetTransaction (send_hash resp)] @ suf)
               \<and> (\<forall>a' s'. EvSign a' s' \<notin> set ([EvSend env, EvGetTransaction (send_hash resp)] @ suf))"
              by (auto simp: tr5_def)
            then show ?thesis by blast
          qed
        qed
      qed
    qed
  qed
  then obtain post where post: "tr = tr3 @ post" "\<forall>a' s'. EvSign a' s' \<notin> set post" by blast
  then have "EvSign a s = EvSign asm wa" using sg by (auto simp: tr3_def)
  then have "tr = [EvGetAccount wa, EvSimulate t] @ EvSign a s # post"
    using post(1) by (simp add: tr3_def)
  then show ?thesis using sim rv post(2) by blast
qed

text \<open>
  C1. When the dry run of an orchestrated call reports an error, the call fails with
  \<open>SimulationError\<close> carrying the diagnostic of the network (\<open>Unknown error\<close> when the
  diagnostic is empty), and the trace ends with the simulation: no signing request is
  made. In every completed call, a signing request is preceded by a simulation of the
  network that reported no error, and it is the only signing request.
\<close>

theorem simulation_error_short_circuits:
  "(newContract w cid = Inr c \<and> getAccount w wa = Inr acc
      \<and> simulateTransaction w (buildTransaction acc c m ps) = Inr (SimulationFailure d)
     \<longrightarrow> invokeContract w wa cid m ps =
          Some (Inl (SimulationError (if d \<noteq> [] then d else ''Unknown error'')),
                [EvGetAccount wa, EvSimulate (buildTransaction acc c m ps)]))
   \<and> (invokeContract w wa cid m ps = Some (res, tr) \<and> EvSign a s \<in> set tr
     \<longrightarrow> (\<exists>t rv post. tr = [EvGetAccount wa, EvSimulate t] @ EvSign a s # post
            \<and> simulateTransaction w t = Inr (SimulationSuccess rv)
            \<and> (\<forall>a' s'. EvSign a' s' \<notin> set post)))"
proof (intro conjI impI)
  assume "newContract w cid = Inr c \<and> getAccount w wa = Inr acc
      \<and> simulateTransaction w (buildTransaction acc c m ps) = Inr (SimulationFailure d)"
  then show "invokeContract w wa cid m ps =
          Some (Inl (SimulationError (if d \<noteq> [] then d else ''Unknown error'')),
                [EvGetAccount wa, EvSimulate (buildTransaction acc c m ps)])"
    by (simp add: invokeContract_def Let_def SimulationError_def)
next
  assume "invokeContract w wa cid m ps = Some (res, tr) \<and> EvSign a s \<in> set tr"
  then show "\<exists>t rv post. tr = [EvGetAccount wa, EvSimulate t] @ EvSign a s # post
            \<and> simulateTransaction w t = Inr (SimulationSuccess rv)
            \<and> (\<forall>a' s'. EvSign a' s' \<notin> set post)"
    using invokeContract_signs_after_simulation by blast
qed

theorem simulation_error_short_circuits_witness:
  "invokeContract (exampleWorld (SimulationFailure ''HostError'') PENDING (\<lambda>k. \<lparr>get_status = SUCCESS, returnValue = None\<rparr>))
       ''GBUYER'' ''C1'' ''mint'' []
     = Some (Inl (SimulationError ''HostError''),
             [EvGetAccount ''GBUYER'',
              EvSimulate (buildTransaction \<lparr>accountId = ''GBUYER'', sequence = 7\<rparr> ''C1'' ''mint'' [])])
   \<and> (\<exists>t rv post.
         [EvGetAccount ''GBUYER'',
          EvSimulate (buildTransaction \<lparr>accountId = ''GBUYER'', sequence = 7\<rparr> ''C1'' ''mint'' []),
          EvSign (\<lparr>as_transaction = buildTransaction \<lparr>accountId = ''GBUYER'', sequence = 7\<rparr> ''C1'' ''mint'' [],
                    as_simulation = SimulationSuccess (Some ScvVoid)\<rparr>) ''GBUYER'',
          EvSend ''signed'']
           = [EvGetAccount ''GBUYER'', EvSimulate t]
               @ EvSign (\<lparr>as_transaction = buildTransaction \<lparr>accountId = ''GBUYER'', sequence = 7\<rparr> ''C1'' ''mint'' [],
                    as_simulation = SimulationSuccess (Some ScvVoid)\<rparr>) ''GBUYER'' # post
         \<and> simulateTransaction (exampleWorld (SimulationSuccess (Some ScvVoid)) ERROR (\<lambda>k. \<lparr>get_status = SUCCESS, returnValue = None\<rparr>)) t
             = Inr (SimulationSuccess rv))"
proof
  let ?w = "exampleWorld (SimulationFailure ''HostError'') PENDING (\<lambda>k. \<lparr>get_status = SUCCESS, returnValue = None\<rparr>)"
  show "invokeContract ?w ''GBUYER'' ''C1'' ''mint'' []
     = Some (Inl (SimulationError ''HostError''),
             [EvGetAccount ''GBUYER'',
              EvSimulate (buildTransaction \<lparr>accountId = ''GBUYER'', sequence = 7\<rparr> ''C1'' ''mint'' [])])"
    using simulation_error_short_circuits[of ?w "''C1''" "''C1''" "''GBUYER''"
        "\<lparr>accountId = ''GBUYER'', sequence = 7\<rparr>" "''mint''" "[]" "''HostError''"]
    by (simp add: exampleWorld_simps)
next
  let ?w = "exampleWorld (SimulationSuccess (Some ScvVoid)) ERROR (\<lambda>k. \<lparr>get_status = SUCCESS, returnValue = None\<rparr>)"
  let ?t = "buildTransaction \<lparr>accountId = ''GBUYER'', sequence = 7\<rparr> ''C1'' ''mint'' []"
  let ?a = "\<lparr>as_transaction = ?t, as_simulation = SimulationSuccess (Some ScvVoid)\<rparr>"
  let ?tr = "[EvGetAccount ''GBUYER'', EvSimulate ?t, EvSign ?a ''GBUYER'', EvSend ''signed'']"
  have run: "invokeContract ?w ''GBUYER'' ''C1'' ''mint'' [] = Some (Inl (Error ''Transaction submission failed''), ?tr)"
    by (simp add: invokeContract_def Let_def exampleWorld_simps)
  have "EvSign ?a ''GBUYER'' \<in> set ?tr" by simp
  with run simulation_error_short_circuits[of ?w "''C1''" c "''GBUYER''" acc "''mint''" "[]" d
      "Inl (Error ''Transaction submission failed'')" ?tr ?a "''GBUYER''"]
  show "\<exists>t rv post. ?tr = [EvGetAccount ''GBUYER'', EvSimulate t] @ EvSign ?a ''GBUYER'' # post
         \<and> simulateTransaction ?w t = Inr (SimulationSuccess rv)"
    by blast
qed

section \<open>Submission and confirmation\<close>

text \<open>
  A dry run that succeeds without a result does not reach the wallet: the assembly
  throws, after the account fetch and the simulation.
\<close>

lemma invokeContract_without_result:
  assumes "newContract w cid = Inr c"
    and "getAccount w wa = Inr acc"
    and "simulateTransaction w (buildTransaction acc c m ps) = Inr (SimulationSuccess None)"
  shows "invokeContract w wa cid m ps =
           Some (Inl (SdkError ''TypeError''), [EvGetAccount wa, EvSimulate (buildTransaction acc c m ps)])"
  using assms by (simp add: invokeContract_def Let_def)

text \<open>
  C4. For a call that reaches submission (the dry run succeeded with a result, the wallet
  signed, the envelope was sent): a submission result other than \<open>PENDING\<close> fails with
  the error \<open>Transaction submission failed\<close> and no status request is made. After
  \<open>PENDING\<close>, while the status is \<open>NOT_FOUND\<close> the orchestrator waits one second and
  asks again, for any number \<open>K\<close> of rounds; when the status leaves \<open>NOT_FOUND\<close>,
  \<open>SUCCESS\<close> returns the decoded return value (null when absent) and the other status,
  \<open>FAILED\<close>, fails with the error \<open>Transaction failed: FAILED\<close>. When the status never
  leaves \<open>NOT_FOUND\<close> the call never returns.
\<close>

theorem submission_and_confirmation:
  assumes "newContract w cid = Inr c"
    and "getAccount w wa = Inr acc"
    and "simulateTransaction w (buildTransaction acc c m ps) = Inr (SimulationSuccess (Some rv))"
    and "asm = \<lparr>as_transaction = buildTransaction acc c m ps,
                 as_simulation = SimulationSuccess (Some rv)\<rparr>"
    and "signTransaction w asm wa = Inr xdr"
    and "fromXDR w xdr = Inr env"
    and "sendTransaction w env = Inr resp"
    and "pre = [EvGetAccount wa, EvSimulate (buildTransaction acc c m ps), EvSign asm wa, EvSend env]"
  shows "(send_status resp \<noteq> PENDING \<longrightarrow>
            invokeContract w wa cid m ps = Some (Inl (Error ''Transaction submission failed''), pre))
    \<and> (send_status resp = PENDING
          \<and> (\<forall>i\<le>K. getTransaction w i (send_hash resp) = Inr (rs i))
          \<and> (\<forall>i<K. get_status (rs i) = NOT_FOUND)
          \<and> get_status (rs K) \<noteq> NOT_FOUND \<longrightarrow>
            invokeContract w wa cid m ps =
              Some (if get_status (rs K) = SUCCESS
                    then Inr (case returnValue (rs K) of Some result \<Rightarrow> scValToNative result | None \<Rightarrow> JNull)
                    else Inl (Error ''Transaction failed: FAILED''),
                    pre @ EvGetTransaction (send_hash resp) # pollTrace (send_hash resp) K))
    \<and> (send_status resp = PENDING
          \<and> (\<forall>i. \<exists>r. getTransaction w i (send_hash resp) = Inr r \<and> get_status r = NOT_FOUND) \<longrightarrow>
            invokeContract w wa cid m ps = None)"
proof (intro conjI impI)
  assume "send_status resp \<noteq> PENDING"
  then show "invokeContract w wa cid m ps = Some (Inl (Error ''Transaction submission failed''), pre)"
    using assms by (simp add: invokeContract_def Let_def)
next
  assume a: "send_status resp = PENDING
          \<and> (\<forall>i\<le>K. getTransaction w i (send_hash resp) = Inr (rs i))
          \<and> (\<forall>i<K. get_status (rs i) = NOT_FOUND)
          \<and> get_status (rs K) \<noteq> NOT_FOUND"
  then have g0: "getTransaction w 0 (send_hash resp) = Inr (rs 0)" by simp
  have p: "pollTransaction w (send_hash resp) 0 (rs 0) (pre @ [EvGetTransaction (send_hash resp)])
      = Some (Inr (rs K), (pre @ [EvGetTransaction (send_hash resp)]) @ pollTrace (send_hash resp) (K - 0))"
    using a by (intro pollTransaction_finishes) simp_all
  show "invokeContract w wa cid m ps =
              Some (if get_status (rs K) = SUCCESS
                    then Inr (case returnValue (rs K) of Some result \<Rightarrow> scValToNative result | None \<Rightarrow> JNull)
                    else Inl (Error ''Transaction failed: FAILED''),
                    pre @ EvGetTransaction (send_hash resp) # pollTrace (send_hash resp) K)"
    using assms(1-7) a g0 p[unfolded assms(8)]
    by (cases "get_status (rs K)") (simp_all add: invokeContract_def Let_def assms(8))
next
  assume a: "send_status resp = PENDING
      \<and> (\<forall>i. \<exists>r. getTransaction w i (send_hash resp) = Inr r \<and> get_status r = NOT_FOUND)"
  then obtain g where g: "getTransaction w 0 (send_hash resp) = Inr g" "get_status g = NOT_FOUND" by blast
  have "pollTransaction w (send_hash resp) 0 g (pre @ [EvGetTransaction (send_hash resp)]) = None"
    using a g(2) by (intro pollTransaction_diverges) simp_all
  then show "invokeContract w wa cid m ps = None"
    using assms(1-7) a g by (simp add: invokeContract_def Let_def assms(8))
qed

theorem submission_and_confirmation_witness:
  "invokeContract (exampleWorld (SimulationSuccess (Some ScvVoid)) ERROR (thirdPoll \<lparr>get_status = SUCCESS, returnValue = None\<rparr>))
      ''GBUYER'' ''C1'' ''mint'' []
     = Some (Inl (Error ''Transaction submission failed''),
         [EvGetAccount ''GBUYER'',
          EvSimulate (buildTransaction \<lparr>accountId = ''GBUYER'', sequence = 7\<rparr> ''C1'' ''mint'' []),
          EvSign (\<lparr>as_transaction = buildTransaction \<lparr>accountId = ''GBUYER'', sequence = 7\<rparr> ''C1'' ''mint'' [],
                    as_simulation = SimulationSuccess (Some ScvVoid)\<rparr>) ''GBUYER'',
          EvSend ''signed''])
   \<and> invokeContract (exampleWorld (SimulationSuccess (Some ScvVoid)) PENDING (thirdPoll \<lparr>get_status = SUCCESS, returnValue = Some (ScvI128 5)\<rparr>))
      ''GBUYER'' ''C1'' ''mint'' []
     = Some (Inr (JBigInt 5),
         [EvGetAccount ''GBUYER'',
          EvSimulate (buildTransaction \<lparr>accountId = ''GBUYER'', sequence = 7\<rparr> ''C1'' ''mint'' []),
          EvSign (\<lparr>as_transaction = buildTransaction \<lparr>accountId = ''GBUYER'', sequence = 7\<rparr> ''C1'' ''mint'' [],
                    as_simulation = SimulationSuccess (Some ScvVoid)\<rparr>) ''GBUYER'',
          EvSend ''signed'',
          EvGetTransaction ''h1'', EvSleep 1000, EvGetTransaction ''h1'', EvSleep 1000, EvGetTransaction ''h1''])
   \<and> invokeContract (exampleWorld (SimulationSuccess (Some ScvVoid)) PENDING (thirdPoll \<lparr>get_status = FAILED, returnValue = None\<rparr>))
      ''GBUYER'' ''C1'' ''mint'' []
     = Some (Inl (Error ''Transaction failed: FAILED''),
         [EvGetAccount ''GBUYER'',
          EvSimulate (buildTransaction \<lparr>accountId = ''GBUYER'', sequence = 7\<rparr> ''C1'' ''mint'' []),
          EvSign (\<lparr>as_transaction = buildTransaction \<lparr>accountId = ''GBUYER'', sequence = 7\<rparr> ''C1'' ''mint'' [],
                    as_simulation = SimulationSuccess (Some ScvVoid)\<rparr>) ''GBUYER'',
          EvSend ''signed'',
          EvGetTransaction ''h1'', EvSleep 1000, EvGetTransaction ''h1'', EvSleep 1000, EvGetTransaction ''h1''])
   \<and> invokeContract (exampleWorld (SimulationSuccess (Some ScvVoid)) PENDING (\<lambda>k. \<lparr>get_status = NOT_FOUND, returnValue = None\<rparr>))
      ''GBUYER'' ''C1'' ''mint'' [] = None"
proof -
  let ?acc = "\<lparr>accountId = ''GBUYER'', sequence = 7\<rparr>"
  let ?t = "buildTransaction ?acc ''C1'' ''mint'' []"
  let ?asm = "\<lparr>as_transaction = ?t, as_simulation = SimulationSuccess (Some ScvVoid)\<rparr>"
  let ?pre = "[EvGetAccount ''GBUYER'', EvSimulate ?t, EvSign ?asm ''GBUYER'', EvSend ''signed'']"
  have tr2: "pollTrace ''h1'' 2 = [EvSleep 1000, EvGetTransaction ''h1'', EvSleep 1000, EvGetTransaction ''h1'']"
    by (simp add: pollTrace_def numeral_2_eq_2)
  have 1: "invokeContract (exampleWorld (SimulationSuccess (Some ScvVoid)) ERROR (thirdPoll \<lparr>get_status = SUCCESS, returnValue = None\<rparr>))
      ''GBUYER'' ''C1'' ''mint'' [] = Some (Inl (Error ''Transaction submission failed''), ?pre)"
    using submission_and_confirmation[of
        "exampleWorld (SimulationSuccess (Some ScvVoid)) ERROR (thirdPoll \<lparr>get_status = SUCCESS, returnValue = None\<rparr>)"
        "''C1''" "''C1''" "''GBUYER''" ?acc "''mint''" "[]" ScvVoid ?asm "''signed''" "''signed''"
        "\<lparr>send_status = ERROR, send_hash = ''h1''\<rparr>" ?pre]
    by (simp add: exampleWorld_simps)
  have 2: "invokeContract (exampleWorld (SimulationSuccess (Some ScvVoid)) PENDING (thirdPoll \<lparr>get_status = SUCCESS, returnValue = Some (ScvI128 5)\<rparr>))
      ''GBUYER'' ''C1'' ''mint'' []
     = Some (Inr (JBigInt 5), ?pre @ EvGetTransaction ''h1'' # pollTrace ''h1'' 2)"
    using submission_and_confirmation[of
        "exampleWorld (SimulationSuccess (Some ScvVoid)) PENDING (thirdPoll \<lparr>get_status = SUCCESS, returnValue = Some (ScvI128 5)\<rparr>)"
        "''C1''" "''C1''" "''GBUYER''" ?acc "''mint''" "[]" ScvVoid ?asm "''signed''" "''signed''"
        "\<lparr>send_status = PENDING, send_hash = ''h1''\<rparr>" ?pre 2
        "thirdPoll \<lparr>get_status = SUCCESS, returnValue = Some (ScvI128 5)\<rparr>"]
    by (simp add: exampleWorld_simps thirdPoll_def)
  have 3: "invokeContract (exampleWorld (SimulationSuccess (Some ScvVoid)) PENDING (thirdPoll \<lparr>get_status = FAILED, returnValue = None\<rparr>))
      ''GBUYER'' ''C1'' ''mint'' []
     = Some (Inl (Error ''Transaction failed: FAILED''), ?pre @ EvGetTransaction ''h1'' # pollTrace ''h1'' 2)"
    using submission_and_confirmation[of
        "exampleWorld (SimulationSuccess (Some ScvVoid)) PENDING (thirdPoll \<lparr>get_status = FAILED, returnValue = None\<rparr>)"
        "''C1''" "''C1''" "''GBUYER''" ?acc "''mint''" "[]" ScvVoid ?asm "''signed''" "''signed''"
        "\<lparr>send_status = PENDING, send_hash = ''h1''\<rparr>" ?pre 2
        "thirdPoll \<lparr>get_status = FAILED, returnValue = None\<rparr>"]
    by (simp add: exampleWorld_simps thirdPoll_def)
  have 4: "invokeContract (exampleWorld (SimulationSuccess (Some ScvVoid)) PENDING (\<lambda>k. \<lparr>get_status = NOT_FOUND, returnValue = None\<rparr>))
      ''GBUYER'' ''C1'' ''mint'' [] = None"
    using submission_and_confirmation[of
        "exampleWorld (SimulationSuccess (Some ScvVoid)) PENDING (\<lambda>k. \<lparr>get_status = NOT_FOUND, returnValue = None\<rparr>)"
        "''C1''" "''C1''" "''GBUYER''" ?acc "''mint''" "[]" ScvVoid ?asm "''signed''" "''signed''"
        "\<lparr>send_status = PENDING, send_hash = ''h1''\<rparr>" ?pre]
    by (simp add: exampleWorld_simps)
  show ?thesis using 1 2 3 4 by (simp add: tr2)
qed

section \<open>Read-only queries\<close>

text \<open>
  C8. A read-only query asks for the placeholder account and for one simulation, and for
  nothing else: it makes no signing request, no submission and no status request. A
  successful simulation returns the decoded simulated return value (null when absent);
  a simulation that reports an error fails with the simulation error of the reader.
\<close>

theorem read_only_invocation:
  "(snd (readContract w cid m ps) = []
      \<or> snd (readContract w cid m ps) = [EvGetAccount DUMMY_ACCOUNT]
      \<or> (\<exists>t. snd (readContract w cid m ps) = [EvGetAccount DUMMY_ACCOUNT, EvSimulate t]))
   \<and> (\<forall>a s. EvSign a s \<notin> set (snd (readContract w cid m ps)))
   \<and> (\<forall>e. EvSend e \<notin> set (snd (readContract w cid m ps)))
   \<and> (\<forall>h. EvGetTransaction h \<notin> set (snd (readContract w cid m ps)))
   \<and> (newContract w cid = Inr c \<and> getAccount w DUMMY_ACCOUNT = Inr acc
        \<and> simulateTransaction w (buildTransaction acc c m ps) = Inr (SimulationSuccess rv) \<longrightarrow>
         readContract w cid m ps =
           (Inr (case rv of Some result \<Rightarrow> scValToNative result | None \<Rightarrow> JNull),
            [EvGetAccount DUMMY_ACCOUNT, EvSimulate (buildTransaction acc c m ps)]))
   \<and> (newContract w cid = Inr c \<and> getAccount w DUMMY_ACCOUNT = Inr acc
        \<and> simulateTransaction w (buildTransaction acc c m ps) = Inr (SimulationFailure d) \<longrightarrow>
         readContract w cid m ps =
           (Inl ReadSimulationError,
            [EvGetAccount DUMMY_ACCOUNT, EvSimulate (buildTransaction acc c m ps)]))"
proof -
  have shape: "snd (readContract w cid m ps) = []
      \<or> snd (readContract w cid m ps) = [EvGetAccount DUMMY_ACCOUNT]
      \<or> (\<exists>t. snd (readContract w cid m ps) = [EvGetAccount DUMMY_ACCOUNT, EvSimulate t])"
    by (simp add: readContract_def Let_def split: sum.splits simulation.splits)
  then have none: "(\<forall>a s. EvSign a s \<notin> set (snd (readContract w cid m ps)))
   \<and> (\<forall>e. EvSend e \<notin> set (snd (readContract w cid m ps)))
   \<and> (\<forall>h. EvGetTransaction h \<notin> set (snd (readContract w cid m ps)))"
    by auto
  show ?thesis using shape none
    by (auto simp: readContract_def Let_def ReadSimulationError_def)
qed

theorem read_only_invocation_witness:
  "readContract (exampleWorld (SimulationSuccess (Some (ScvI128 42))) PENDING (\<lambda>k. \<lparr>get_status = SUCCESS, returnValue = None\<rparr>))
      ''C1'' ''balance_of'' [ScvAddress ''GOWNER'']
     = (Inr (JBigInt 42),
        [EvGetAccount DUMMY_ACCOUNT,
         EvSimulate (buildTransaction \<lparr>accountId = DUMMY_ACCOUNT, sequence = 7\<rparr> ''C1'' ''balance_of'' [ScvAddress ''GOWNER''])])
   \<and> readContract (exampleWorld (SimulationSuccess None) PENDING (\<lambda>k. \<lparr>get_status = SUCCESS, returnValue = None\<rparr>))
      ''C1'' ''balance_of'' [ScvAddress ''GOWNER'']
     = (Inr JNull,
        [EvGetAccount DUMMY_ACCOUNT,
         EvSimulate (buildTransaction \<lparr>accountId = DUMMY_ACCOUNT, sequence = 7\<rparr> ''C1'' ''balance_of'' [ScvAddress ''GOWNER''])])
   \<and> readContract (exampleWorld (SimulationFailure ''HostError'') PENDING (\<lambda>k. \<lparr>get_status = SUCCESS, returnValue = None\<rparr>))
      ''C1'' ''balance_of'' [ScvAddress ''GOWNER'']
     = (Inl ReadSimulationError,
        [EvGetAccount DUMMY_ACCOUNT,
         EvSimulate (buildTransaction \<lparr>accountId = DUMMY_ACCOUNT, sequence = 7\<rparr> ''C1'' ''balance_of'' [ScvAddress ''GOWNER''])])"
proof -
  let ?p = "\<lambda>k::nat. \<lparr>get_status = SUCCESS, returnValue = None\<rparr>"
  let ?acc = "\<lparr>accountId = DUMMY_ACCOUNT, sequence = 7\<rparr>"
  have 1: "readContract (exampleWorld (SimulationSuccess (Some (ScvI128 42))) PENDING ?p) ''C1'' ''balance_of'' [ScvAddress ''GOWNER'']
     = (Inr (JBigInt 42),
        [EvGetAccount DUMMY_ACCOUNT, EvSimulate (buildTransaction ?acc ''C1'' ''balance_of'' [ScvAddress ''GOWNER''])])"
    using read_only_invocation[of "exampleWorld (SimulationSuccess (Some (ScvI128 42))) PENDING ?p"
        "''C1''" "''balance_of''" "[ScvAddress ''GOWNER'']" "''C1''" ?acc "Some (ScvI128 42)"]
    by (simp add: exampleWorld_simps)
  have 2: "readContract (exampleWorld (SimulationSuccess None) PENDING ?p) ''C1'' ''balance_of'' [ScvAddress ''GOWNER'']
     = (Inr JNull,
        [EvGetAccount DUMMY_ACCOUNT, EvSimulate (buildTransaction ?acc ''C1'' ''balance_of'' [ScvAddress ''GOWNER''])])"
    using read_only_invocation[of "exampleWorld (SimulationSuccess None) PENDING ?p"
        "''C1''" "''balance_of''" "[ScvAddress ''GOWNER'']" "''C1''" ?acc None]
    by (simp add: exampleWorld_simps)
  have 3: "readContract (exampleWorld (SimulationFailure ''HostError'') PENDING ?p) ''C1'' ''balance_of'' [ScvAddress ''GOWNER'']
     = (Inl ReadSimulationError,
        [EvGetAccount DUMMY_ACCOUNT, EvSimulate (buildTransaction ?acc ''C1'' ''balance_of'' [ScvAddress ''GOWNER''])])"
    using read_only_invocation[of "exampleWorld (SimulationFailure ''HostError'') PENDING ?p"
        "''C1''" "''balance_of''" "[ScvAddress ''GOWNER'']" "''C1''" ?acc _ "''HostError''"]
    by (simp add: exampleWorld_simps)
  show ?thesis using 1 2 3 by simp
qed

section \<open>Settlement after a resale purchase\<close>

lemma find_update_listings:
  assumes "\<And>l. rrow_id (f l) = rrow_id l"
  shows "find (\<lambda>r. rrow_id r = i) (map (\<lambda>l. if rrow_id l = i then f l else l) rows)
       = map_option f (find (\<lambda>r. rrow_id r = i) rows)"
  by (induction rows) (simp_all add: assms)

lemma js_sub_self: "js_sub (Fin a) (Fin a) = Fin 0"
  by (simp add: toDouble_def)

lemma js_sub_int:
  assumes "\<bar>t - n\<bar> \<le> 2 ^ 53"
  shows "js_sub (Fin (of_int t)) (Fin (of_int n)) = Fin (of_int (t - n))"
  using toDouble_of_int[OF assms] by simp
lemma is_double_int: "\<bar>i\<bar> \<le> 2 ^ 53 \<Longrightarrow> is_double (Fin (of_int i))"
  by (simp add: toDouble_of_int)

lemma toStroops_two: "toStroops (Fin 2) = Fin 20000000"
  using toDouble_of_int[of 20000000] by (simp add: toStroops_def)

lemma transfer_exampleWorld:
  assumes "- (2 ^ 127) \<le> n" "n < 2 ^ 127"
  shows "\<exists>tr. transferTokensWithPayment
      (exampleWorld (SimulationSuccess (Some ScvVoid)) PENDING (thirdPoll \<lparr>get_status = SUCCESS, returnValue = None\<rparr>))
      ''GBUYER'' ''GSELLER'' ''C1'' (Fin (of_int n)) (Fin 2) XLM_TOKEN_ADDRESS
   = Some (Inr (), tr)"
  using assms
  by (simp add: transferTokensWithPayment_def toStroops_two addressToScVal_def exampleWorld_simps
      invokeContract_def Let_def discard_def thirdPoll_def[of _ 0] pollTransaction_thirdPoll)

lemma exampleStore_find: "find (\<lambda>r. rrow_id r = ''L1'') (resale_listings exampleStore) = Some exampleListing"
  by (simp add: exampleStore_def exampleListing_def)

text \<open>
  C2. Take a reachable store, a listing in it with \<open>tokens_for_sale = T\<close> that is active
  and that the page holds a copy of, and a confirmed transfer of \<open>N \<le> T\<close> tokens. After
  \<^verbatim>\<open>handleBuyResale\<close> the stored listing has \<open>tokens_for_sale = T - N\<close> and is still
  active when \<open>N < T\<close>, and is inactive when \<open>N = T\<close>; nothing else of the row changes.
  \<open>T - N\<close> is the subtraction of the language, which is exact for whole numbers whose
  difference is at most \<open>2 ^ 53\<close> in magnitude.
\<close>

theorem settlement_after_purchase:
  assumes "fault st = None"
    and "find (\<lambda>r. rrow_id r = listing_id sel) (resale_listings st) = Some l"
    and "sel = toResaleListing l"
    and "rrow_tokens_for_sale l = Fin T"
    and "rrow_is_active l"
    and "is_double (Fin T)"
    and "is_double (Fin N)"
    and "N \<le> T"
    and "wa \<noteq> []"
    and "transferTokensWithPayment w wa (seller_wallet sel) (contract_id sel) (Fin N)
           (price_per_token sel) XLM_TOKEN_ADDRESS = Some (Inr (), tr)"
  shows "\<exists>st' l' al. handleBuyResale w st (Some wa) (Some sel) (Fin N) = Some (st', None, al)
      \<and> find (\<lambda>r. rrow_id r = listing_id sel) (resale_listings st') = Some l'
      \<and> (N < T \<longrightarrow> l' = l\<lparr>rrow_tokens_for_sale := js_sub (Fin T) (Fin N)\<rparr>
                    \<and> rrow_tokens_for_sale l' = js_sub (Fin T) (Fin N) \<and> rrow_is_active l')
      \<and> (N = T \<longrightarrow> l' = l\<lparr>rrow_is_active := False\<rparr> \<and> \<not> rrow_is_active l')
      \<and> (\<forall>t n. T = of_int t \<and> N = of_int n \<and> \<bar>t - n\<bar> \<le> 2 ^ 53 \<longrightarrow>
             js_sub (Fin T) (Fin N) = Fin (of_int (t - n)))"
proof -
  have ex: "\<forall>t n. T = of_int t \<and> N = of_int n \<and> \<bar>t - n\<bar> \<le> 2 ^ 53 \<longrightarrow>
             js_sub (Fin T) (Fin N) = Fin (of_int (t - n))"
    using js_sub_int by blast
  have sel: "tokens_for_sale sel = Fin T" "listing_id sel = rrow_id l"
    using assms(3,4) by (simp_all add: toResaleListing_def)
  show ?thesis
  proof (cases "N < T")
    case True
    then have gt: "js_gt (js_sub (Fin T) (Fin N)) (Fin 0)"
      using assms(6,7) by (intro js_sub_positive)
    let ?st = "st\<lparr>resale_listings := map (\<lambda>r. if rrow_id r = listing_id sel
        then r\<lparr>rrow_tokens_for_sale := js_sub (Fin T) (Fin N)\<rparr> else r) (resale_listings st)\<rparr>"
    have h: "handleBuyResale w st (Some wa) (Some sel) (Fin N)
        = Some (?st, None, PurchaseSuccessful (Fin N) (js_sub (Fin T) (Fin N)))"
      using assms(1,9,10) gt sel(1)
      by (simp add: handleBuyResale_def Let_def updateResaleListingQuantity_def update_listings_def)
    have f: "find (\<lambda>r. rrow_id r = listing_id sel) (resale_listings ?st)
        = Some (l\<lparr>rrow_tokens_for_sale := js_sub (Fin T) (Fin N)\<rparr>)"
      using assms(2) by (simp add: find_update_listings)
    show ?thesis using h f True assms(5) ex by auto
  next
    case False
    then have eq: "N = T" using assms(8) by simp
    have ngt: "\<not> js_gt (js_sub (Fin T) (Fin N)) (Fin 0)"
      by (simp add: eq js_sub_self js_gt_def del: js_sub.simps)
    let ?st = "st\<lparr>resale_listings := map (\<lambda>r. if rrow_id r = listing_id sel
        then r\<lparr>rrow_is_active := False\<rparr> else r) (resale_listings st)\<rparr>"
    have h: "handleBuyResale w st (Some wa) (Some sel) (Fin N) = Some (?st, None, PurchaseSoldOut)"
      using assms(1,9,10) ngt sel(1)
      by (simp add: handleBuyResale_def Let_def deactivateResaleListing_def update_listings_def del: js_sub.simps)
    have f: "find (\<lambda>r. rrow_id r = listing_id sel) (resale_listings ?st)
        = Some (l\<lparr>rrow_is_active := False\<rparr>)"
      using assms(2) by (simp add: find_update_listings)
    show ?thesis using h f eq ex by auto
  qed
qed

theorem settlement_after_purchase_witness:
  "(\<exists>st' l' al.
      handleBuyResale (exampleWorld (SimulationSuccess (Some ScvVoid)) PENDING (thirdPoll \<lparr>get_status = SUCCESS, returnValue = None\<rparr>))
        exampleStore (Some ''GBUYER'') (Some (toResaleListing exampleListing)) (Fin 40) = Some (st', None, al)
      \<and> find (\<lambda>r. rrow_id r = ''L1'') (resale_listings st') = Some l'
      \<and> rrow_tokens_for_sale l' = Fin 60 \<and> rrow_is_active l')
   \<and> (\<exists>st' l' al.
      handleBuyResale (exampleWorld (SimulationSuccess (Some ScvVoid)) PENDING (thirdPoll \<lparr>get_status = SUCCESS, returnValue = None\<rparr>))
        exampleStore (Some ''GBUYER'') (Some (toResaleListing exampleListing)) (Fin 100) = Some (st', None, al)
      \<and> find (\<lambda>r. rrow_id r = ''L1'') (resale_listings st') = Some l'
      \<and> \<not> rrow_is_active l')"
proof -
  let ?w = "exampleWorld (SimulationSuccess (Some ScvVoid)) PENDING (thirdPoll \<lparr>get_status = SUCCESS, returnValue = None\<rparr>)"
  let ?sel = "toResaleListing exampleListing"
  have sel: "listing_id ?sel = ''L1''" "seller_wallet ?sel = ''GSELLER''" "contract_id ?sel = ''C1''"
    "price_per_token ?sel = Fin 2"
    by (simp_all add: toResaleListing_def exampleListing_def)
  have d: "is_double (Fin 100)" "is_double (Fin 40)"
    using is_double_int[of 100] is_double_int[of 40] by simp_all
  obtain tr where tr: "transferTokensWithPayment ?w ''GBUYER'' (seller_wallet ?sel) (contract_id ?sel)
      (Fin 40) (price_per_token ?sel) XLM_TOKEN_ADDRESS = Some (Inr (), tr)"
    using transfer_exampleWorld[of 40] by (auto simp: sel)
  obtain tr' where tr': "transferTokensWithPayment ?w ''GBUYER'' (seller_wallet ?sel) (contract_id ?sel)
      (Fin 100) (price_per_token ?sel) XLM_TOKEN_ADDRESS = Some (Inr (), tr')"
    using transfer_exampleWorld[of 100] by (auto simp: sel)
  have f: "find (\<lambda>r. rrow_id r = listing_id ?sel) (resale_listings exampleStore) = Some exampleListing"
    by (simp add: sel exampleStore_find)
  have a: "fault exampleStore = None" "rrow_tokens_for_sale exampleListing = Fin 100"
    "rrow_is_active exampleListing"
    by (simp_all add: exampleStore_def exampleListing_def)
  have sub: "\<bar>(100::int) - 40\<bar> \<le> 2 ^ 53" by simp
  from settlement_after_purchase[OF a(1) f refl a(2) a(3) d(1) d(2) _ _ tr]
  obtain st' l' al where r: "handleBuyResale ?w exampleStore (Some ''GBUYER'') (Some ?sel) (Fin 40) = Some (st', None, al)"
    "find (\<lambda>r. rrow_id r = listing_id ?sel) (resale_listings st') = Some l'"
    "rrow_tokens_for_sale l' = js_sub (Fin 100) (Fin 40)" "rrow_is_active l'"
    "\<forall>t n. (100::rat) = of_int t \<and> (40::rat) = of_int n \<and> \<bar>t - n\<bar> \<le> 2 ^ 53 \<longrightarrow>
             js_sub (Fin 100) (Fin 40) = Fin (of_int (t - n))"
    by force
  have "js_sub (Fin 100) (Fin 40) = Fin (of_int (100 - 40))"
    using r(5)[rule_format, of 100 40] by simp
  then have 1: "rrow_tokens_for_sale l' = Fin 60" using r(3) by simp
  from settlement_after_purchase[OF a(1) f refl a(2) a(3) d(1) d(1) _ _ tr']
  obtain st'' l'' al' where r': "handleBuyResale ?w exampleStore (Some ''GBUYER'') (Some ?sel) (Fin 100) = Some (st'', None, al')"
    "find (\<lambda>r. rrow_id r = listing_id ?sel) (resale_listings st'') = Some l''"
    "\<not> rrow_is_active l''"
    by force
  show ?thesis using r(1,2,4) 1 r'(1,2,3) unfolding sel by blast
qed


section \<open>Company lookup\<close>

text \<open>
  C3, as the code has it. The lookup answers null both when no row matches and when
  the store fails: for a store that cannot be reached it returns the same null for a
  company that has a row as a reachable store returns for an address without one.
\<close>

theorem getCompanyMetadata_folds_store_failure:
  "getCompanyMetadata (exampleStore\<lparr>fault := Some (PostgrestError ''TypeError: Failed to fetch'')\<rparr>) ''C1'' = None
   \<and> getCompanyMetadata exampleStore ''C404'' = None
   \<and> getCompanyMetadata exampleStore ''C1'' \<noteq> None"
  by (simp add: getCompanyMetadata_def select_single_def exampleStore_def exampleCompany_def)

text \<open>
  C3, amended. The lookup returns the metadata of the row when the store is reachable
  and exactly one row matches the address (by contract id or by wallet address). In
  every other case it returns null: no matching row, more than one, or any error of the
  store, a transport failure included. No error propagates to the caller.
\<close>

theorem getCompanyMetadata_outcomes:
  "getCompanyMetadata st cid =
     (case fault st of
        Some e \<Rightarrow> None
      | None \<Rightarrow>
         (case filter (\<lambda>c. row_contract_id c = Some cid \<or> row_wallet_address c = cid) (companies st) of
            [r] \<Rightarrow> Some (toCompanyMetadata r)
          | _ \<Rightarrow> None))"
  by (simp add: getCompanyMetadata_def select_single_def Let_def split: option.splits list.splits)

theorem getCompanyMetadata_outcomes_witness:
  "getCompanyMetadata exampleStore ''C1'' = Some (toCompanyMetadata exampleCompany)
   \<and> getCompanyMetadata exampleStore ''GOWNER'' = None
   \<and> getCompanyMetadata (exampleStore\<lparr>fault := Some PGRST116\<rparr>) ''C1'' = None"
proof -
  have 1: "getCompanyMetadata exampleStore ''C1'' = Some (toCompanyMetadata exampleCompany)"
    using getCompanyMetadata_outcomes[of exampleStore "''C1''"]
    by (simp add: exampleStore_def exampleCompany_def)
  have 2: "getCompanyMetadata exampleStore ''GOWNER'' = None"
    using getCompanyMetadata_outcomes[of exampleStore "''GOWNER''"]
    by (simp add: exampleStore_def exampleCompany_def)
  have 3: "getCompanyMetadata (exampleStore\<lparr>fault := Some PGRST116\<rparr>) ''C1'' = None"
    using getCompanyMetadata_outcomes[of "exampleStore\<lparr>fault := Some PGRST116\<rparr>" "''C1''"]
    by simp
  show ?thesis using 1 2 3 by simp
qed

section \<open>Ordered listings\<close>

lemma order_desc_sorted:
  "sorted_wrt (\<lambda>a b. created b \<le> created a) (order_desc created rows)"
proof -
  have "sorted (map (\<lambda>r. - created r) (order_desc created rows))"
    unfolding order_desc_def by (rule sorted_sort_key)
  then show ?thesis by (simp add: sorted_map)
qed

lemma order_desc_set: "set (order_desc created rows) = set rows"
  by (simp add: order_desc_def)

lemma order_desc_length: "length (order_desc created rows) = length rows"
  by (simp add: order_desc_def)
lemma exampleStore_companies:
  "map company_created_at (getCompaniesMetadata exampleStore) = [9, 5]"
  by (simp add: getCompaniesMetadata_def select_rows_def Let_def order_desc_def sort_key_def
      exampleStore_def exampleCompany_def toCompanyMetadata_def)

lemma exampleStore_listings:
  "map listing_id (getActiveResaleListings exampleStore) = [''L2'', ''L1'']"
  "map created_at (getActiveResaleListings exampleStore) = [30, 10]"
  by (simp_all add: getActiveResaleListings_def select_rows_def Let_def order_desc_def sort_key_def
      exampleStore_def exampleListing_def toResaleListing_def)

text \<open>
  C6. The companies returned by \<^verbatim>\<open>getCompaniesMetadata\<close> and the listings returned by
  \<^verbatim>\<open>getActiveResaleListings\<close> are ordered by creation time, newest first; every
  listing returned is active; a table without rows gives the empty list. When the store
  is reachable the results are all the companies and all the active listings.
\<close>

theorem listings_newest_first:
  "sorted_wrt (\<lambda>a b. company_created_at b \<le> company_created_at a) (getCompaniesMetadata st)
   \<and> sorted_wrt (\<lambda>a b. created_at b \<le> created_at a) (getActiveResaleListings st)
   \<and> (\<forall>l \<in> set (getActiveResaleListings st). is_active l = True)
   \<and> (companies st = [] \<longrightarrow> getCompaniesMetadata st = [])
   \<and> (resale_listings st = [] \<longrightarrow> getActiveResaleListings st = [])
   \<and> (fault st = None \<longrightarrow>
        set (getCompaniesMetadata st) = toCompanyMetadata ` set (companies st)
        \<and> length (getCompaniesMetadata st) = length (companies st)
        \<and> set (getActiveResaleListings st) = toResaleListing ` {l \<in> set (resale_listings st). rrow_is_active l}
        \<and> length (getActiveResaleListings st) = length (filter rrow_is_active (resale_listings st)))"
proof -
  have c: "sorted_wrt (\<lambda>a b. company_created_at b \<le> company_created_at a) (getCompaniesMetadata st)"
    using order_desc_sorted[of row_created_at "companies st"]
    by (simp add: getCompaniesMetadata_def select_rows_def Let_def sorted_wrt_map toCompanyMetadata_def
        split: option.splits)
  have l: "sorted_wrt (\<lambda>a b. created_at b \<le> created_at a) (getActiveResaleListings st)"
    using order_desc_sorted[of rrow_created_at "filter (\<lambda>l. rrow_is_active l = True) (resale_listings st)"]
    by (simp add: getActiveResaleListings_def select_rows_def Let_def sorted_wrt_map toResaleListing_def
        split: option.splits)
  have a: "\<forall>l \<in> set (getActiveResaleListings st). is_active l = True"
    by (auto simp: getActiveResaleListings_def select_rows_def Let_def order_desc_set toResaleListing_def
        split: option.splits)
  have e: "(companies st = [] \<longrightarrow> getCompaniesMetadata st = [])
     \<and> (resale_listings st = [] \<longrightarrow> getActiveResaleListings st = [])"
    by (simp add: getCompaniesMetadata_def getActiveResaleListings_def select_rows_def Let_def order_desc_def
        split: option.splits)
  have f: "fault st = None \<longrightarrow>
        set (getCompaniesMetadata st) = toCompanyMetadata ` set (companies st)
        \<and> length (getCompaniesMetadata st) = length (companies st)
        \<and> set (getActiveResaleListings st) = toResaleListing ` {l \<in> set (resale_listings st). rrow_is_active l}
        \<and> length (getActiveResaleListings st) = length (filter rrow_is_active (resale_listings st))"
    by (auto simp: getCompaniesMetadata_def getActiveResaleListings_def select_rows_def Let_def
        order_desc_set order_desc_length)
  show ?thesis using c l a e f by blast
qed

theorem listings_newest_first_witness:
  "sorted_wrt (\<lambda>a b. company_created_at b \<le> company_created_at a) (getCompaniesMetadata exampleStore)
   \<and> map company_created_at (getCompaniesMetadata exampleStore) = [9, 5]
   \<and> sorted_wrt (\<lambda>a b. created_at b \<le> created_at a) (getActiveResaleListings exampleStore)
   \<and> map created_at (getActiveResaleListings exampleStore) = [30, 10]
   \<and> list_all is_active (getActiveResaleListings exampleStore)
   \<and> length (getActiveResaleListings exampleStore) = 2
   \<and> getCompaniesMetadata (exampleStore\<lparr>companies := []\<rparr>) = []
   \<and> getActiveResaleListings (exampleStore\<lparr>resale_listings := []\<rparr>) = []"
proof -
  note t = listings_newest_first[of exampleStore]
  have 1: "list_all is_active (getActiveResaleListings exampleStore)"
    using t by (simp add: list_all_iff)
  have "fault exampleStore = None" by (simp add: exampleStore_def)
  then have "length (getActiveResaleListings exampleStore) = length (filter rrow_is_active (resale_listings exampleStore))"
    using t by blast
  then have 2: "length (getActiveResaleListings exampleStore) = 2"
    by (simp add: exampleStore_def exampleListing_def)
  have 3: "getCompaniesMetadata (exampleStore\<lparr>companies := []\<rparr>) = []"
    using listings_newest_first[of "exampleStore\<lparr>companies := []\<rparr>"] by simp
  have 4: "getActiveResaleListings (exampleStore\<lparr>resale_listings := []\<rparr>) = []"
    using listings_newest_first[of "exampleStore\<lparr>resale_listings := []\<rparr>"] by simp
  show ?thesis using t 1 2 3 4 exampleStore_companies exampleStore_listings(2) by blast
qed

section \<open>The quantity a purchase submits\<close>

lemma js_lt_irrefl_le: "x \<noteq> NaN \<Longrightarrow> y \<noteq> NaN \<Longrightarrow> \<not> js_lt x y \<Longrightarrow> js_le y x"
  by (cases x; cases y) (auto simp: js_le_def)

lemma Math_min_not_NaN: "a \<noteq> NaN \<Longrightarrow> b \<noteq> NaN \<Longrightarrow> Math_min a b \<noteq> NaN"
  by (simp add: Math_min_def)

lemma Math_max_not_NaN: "a \<noteq> NaN \<Longrightarrow> b \<noteq> NaN \<Longrightarrow> Math_max a b \<noteq> NaN"
  by (simp add: Math_max_def)

lemma handleTokenChange_not_NaN:
  assumes "tokens m \<noteq> NaN" "availableTokens \<noteq> NaN"
  shows "tokens (handleTokenChange parseInt availableTokens v m) \<noteq> NaN"
  using assms
  by (simp add: handleTokenChange_def Let_def isNaN_def Math_min_not_NaN Math_max_not_NaN)

lemma modal_step_not_NaN:
  assumes "tokens m \<noteq> NaN" "availableTokens \<noteq> NaN"
  shows "tokens (fst (modal_step parseInt tokenPrice availableTokens m ev)) \<noteq> NaN"
  using assms by (cases ev) (simp_all add: handleTokenChange_not_NaN handleInvest_def)

lemma modal_step_calls:
  assumes "tokens m \<noteq> NaN" "availableTokens \<noteq> NaN"
    and "(n, amt) \<in> set (snd (modal_step parseInt tokenPrice availableTokens m ev))"
  shows "js_le (Fin 1) n \<and> js_le n availableTokens \<and> amt = js_mul n tokenPrice"
proof (cases ev)
  case ClickConfirm
  then have en: "\<not> confirmDisabled availableTokens m" and n: "n = tokens m" "amt = js_mul n tokenPrice"
    using assms(3) by (auto simp: handleInvest_def split: if_splits)
  have "\<not> js_lt (tokens m) (Fin 1)" "\<not> js_lt availableTokens (tokens m)"
    using en by (simp_all add: confirmDisabled_def js_gt_def)
  then show ?thesis using assms(1,2) n by (simp add: js_lt_irrefl_le)
qed (use assms(3) in simp_all)

lemma modal_run_calls:
  assumes "tokens m \<noteq> NaN" "availableTokens \<noteq> NaN"
    and "(n, amt) \<in> set (modal_run parseInt tokenPrice availableTokens m evs)"
  shows "js_le (Fin 1) n \<and> js_le n availableTokens \<and> amt = js_mul n tokenPrice"
  using assms
proof (induction evs arbitrary: m)
  case Nil
  then show ?case by simp
next
  case (Cons ev evs)
  obtain m' calls where s: "modal_step parseInt tokenPrice availableTokens m ev = (m', calls)"
    by (cases "modal_step parseInt tokenPrice availableTokens m ev")
  from Cons.prems(3) s consider "(n, amt) \<in> set calls"
    | "(n, amt) \<in> set (modal_run parseInt tokenPrice availableTokens m' evs)"
    by auto
  then show ?case
  proof cases
    case 1
    then show ?thesis using modal_step_calls[OF Cons.prems(1,2), of n amt parseInt tokenPrice ev] s by simp
  next
    case 2
    have "tokens m' \<noteq> NaN"
      using modal_step_not_NaN[OF Cons.prems(1,2), of parseInt tokenPrice ev] s by simp
    then show ?thesis using Cons.IH[OF _ Cons.prems(2) 2] by simp
  qed
qed

text \<open>
  C7. For a listing with \<open>tokens_for_sale = T\<close>, whatever is typed into the quantity field
  and whenever the confirmation button is clicked, every quantity \<open>n\<close> the modal hands
  to the purchase satisfies \<open>1 \<le> n \<le> T\<close>; when \<open>T < 1\<close> nothing is submitted. A typed
  quantity above \<open>T\<close> is clamped to \<open>T\<close>.
\<close>

theorem submitted_quantity_in_range:
  "(\<forall>(n, amt) \<in> set (modal_run parseInt tokenPrice (Fin T) initialModal evs).
       js_le (Fin 1) n \<and> js_le n (Fin T) \<and> (\<exists>q. n = Fin q \<and> 1 \<le> q \<and> q \<le> T))
   \<and> (T < 1 \<longrightarrow> modal_run parseInt tokenPrice (Fin T) initialModal evs = [])
   \<and> (js_lt (Fin T) (parseInt v) \<and> v \<noteq> [] \<and> 0 \<le> T \<longrightarrow>
        tokens (handleTokenChange parseInt (Fin T) v m) = Fin T)"
proof (intro conjI)
  have r: "js_le (Fin 1) n \<and> js_le n (Fin T)"
    if "(n, amt) \<in> set (modal_run parseInt tokenPrice (Fin T) initialModal evs)" for n amt
    using modal_run_calls[of initialModal "Fin T" n amt parseInt tokenPrice evs] that
    by (simp add: initialModal_def)
  have q: "\<exists>q. n = Fin q \<and> 1 \<le> q \<and> q \<le> T" if "js_le (Fin 1) n \<and> js_le n (Fin T)" for n
    using that by (cases n) (auto simp: js_le_def)
  show "\<forall>(n, amt) \<in> set (modal_run parseInt tokenPrice (Fin T) initialModal evs).
       js_le (Fin 1) n \<and> js_le n (Fin T) \<and> (\<exists>q. n = Fin q \<and> 1 \<le> q \<and> q \<le> T)"
    using r q by blast
  show "T < 1 \<longrightarrow> modal_run parseInt tokenPrice (Fin T) initialModal evs = []"
  proof
    assume t: "T < 1"
    show "modal_run parseInt tokenPrice (Fin T) initialModal evs = []"
    proof (rule ccontr)
      assume "modal_run parseInt tokenPrice (Fin T) initialModal evs \<noteq> []"
      then obtain n amt where "(n, amt) \<in> set (modal_run parseInt tokenPrice (Fin T) initialModal evs)"
        by (cases "modal_run parseInt tokenPrice (Fin T) initialModal evs") auto
      then obtain q where "1 \<le> q" "q \<le> T" using r q by blast
      then show False using t by simp
    qed
  qed
  show "js_lt (Fin T) (parseInt v) \<and> v \<noteq> [] \<and> 0 \<le> T \<longrightarrow>
        tokens (handleTokenChange parseInt (Fin T) v m) = Fin T"
    by (cases "parseInt v") (auto simp: handleTokenChange_def Let_def isNaN_def Math_min_def Math_max_def)
qed

theorem submitted_quantity_in_range_witness:
  "modal_run exampleParseInt (Fin 2) (Fin 100) initialModal [Change ''500'', ClickConfirm]
     = [(Fin 100, js_mul (Fin 100) (Fin 2))]
   \<and> js_le (Fin 1) (Fin 100) \<and> js_le (Fin 100) (Fin 100)
   \<and> modal_run exampleParseInt (Fin 2) (Fin 0) initialModal [ClickConfirm, Change ''3'', ClickConfirm] = []
   \<and> tokens (handleTokenChange exampleParseInt (Fin 100) ''500'' initialModal) = Fin 100"
proof -
  have run: "modal_run exampleParseInt (Fin 2) (Fin 100) initialModal [Change ''500'', ClickConfirm]
     = [(Fin 100, js_mul (Fin 100) (Fin 2))]"
    by (simp add: handleTokenChange_def exampleParseInt_def initialModal_def isNaN_def Math_min_def
        Math_max_def confirmDisabled_def js_gt_def handleInvest_def del: js_mul.simps)
  from submitted_quantity_in_range[of exampleParseInt "Fin 2" 100 "[Change ''500'', ClickConfirm]"]
  have 1: "js_le (Fin 1) (Fin 100) \<and> js_le (Fin 100) (Fin 100)"
    unfolding run by simp
  have 2: "modal_run exampleParseInt (Fin 2) (Fin 0) initialModal [ClickConfirm, Change ''3'', ClickConfirm] = []"
    using submitted_quantity_in_range[of exampleParseInt "Fin 2" 0 "[ClickConfirm, Change ''3'', ClickConfirm]"]
    by simp
  have 3: "tokens (handleTokenChange exampleParseInt (Fin 100) ''500'' initialModal) = Fin 100"
    using submitted_quantity_in_range[of exampleParseInt _ 100 _ "''500''" initialModal]
    by (simp add: exampleParseInt_def)
  show ?thesis using run 1 2 3 by blast
qed

section \<open>Narrowing wide integers\<close>

lemma toDouble_zero: "toDouble 0 = Fin 0"
  by (simp add: toDouble_def)

text \<open>
  C9. \<^verbatim>\<open>bigIntToNumber\<close> has a number for every input: for a bigint the nearest binary64
  value (the integer itself up to \<open>2 ^ 53\<close> in magnitude), for a number the number
  unchanged, and \<open>0\<close> for every other value, among them null, undefined, strings and
  objects.
\<close>

theorem bigIntToNumber_total:
  "bigIntToNumber (JBigInt i) = toDouble (of_int i)
   \<and> is_double (bigIntToNumber (JBigInt i))
   \<and> (\<bar>i\<bar> \<le> 2 ^ 53 \<longrightarrow> bigIntToNumber (JBigInt i) = Fin (of_int i))
   \<and> bigIntToNumber (JNumber x) = x
   \<and> ((\<forall>j. v \<noteq> JBigInt j) \<and> (\<forall>y. v \<noteq> JNumber y) \<longrightarrow> bigIntToNumber v = Fin 0)
   \<and> bigIntToNumber JNull = Fin 0
   \<and> bigIntToNumber JUndefined = Fin 0
   \<and> bigIntToNumber (JString s) = Fin 0
   \<and> bigIntToNumber (JObject kvs) = Fin 0"
proof -
  have "(\<forall>j. v \<noteq> JBigInt j) \<and> (\<forall>y. v \<noteq> JNumber y) \<longrightarrow> bigIntToNumber v = Fin 0"
    by (cases v) simp_all
  then show ?thesis by (simp add: is_double_toDouble toDouble_of_int)
qed

theorem bigIntToNumber_total_witness:
  "bigIntToNumber (JBigInt 1000000) = Fin 1000000
   \<and> bigIntToNumber (JString ''1000000'') = Fin 0
   \<and> bigIntToNumber (JBool True) = Fin 0"
proof -
  have 1: "bigIntToNumber (JBigInt 1000000) = Fin 1000000"
    using bigIntToNumber_total[of 1000000] by simp
  have 2: "bigIntToNumber (JString ''1000000'') = Fin 0"
    using bigIntToNumber_total[of _ _ "JString ''1000000''" "''1000000''"] by simp
  have 3: "bigIntToNumber (JBool True) = Fin 0"
    using bigIntToNumber_total[of _ _ "JBool True"] by simp
  show ?thesis using 1 2 3 by simp
qed

text \<open>Beyond \<open>2 ^ 53\<close> the narrowing loses precision.\<close>

lemma bigIntToNumber_rounds: "bigIntToNumber (JBigInt (2 ^ 54 + 1)) = Fin (2 ^ 54)"
  using toDouble_pos_eqI[where x="2 ^ 54 + 1" and k=54 and e=2 and n="2 ^ 52"]
  by simp

section \<open>Balances and tokens sold\<close>

lemma is_double_native: "is_double (bigIntToNumber (scValToNative v))"
proof (cases v)
  case (ScvU32 n)
  define u where "u = int (unat n)"
  have "unat n < 2 ^ 32" using unsigned_less[of n] by simp
  then have "u < 2 ^ 32" unfolding u_def by (metis of_nat_less_iff of_nat_numeral of_nat_power)
  moreover have "0 \<le> u" by (simp add: u_def)
  ultimately have "\<bar>u\<bar> \<le> 2 ^ 53" by simp
  from toDouble_of_int[OF this] have "toDouble (rat_of_int u) = Fin (rat_of_int u)" .
  moreover have "rat_of_int u = of_nat (unat n)" unfolding u_def by (rule of_int_of_nat_eq)
  ultimately have "toDouble (of_nat (unat n)) = Fin (of_nat (unat n))" by (simp only:)
  then show ?thesis unfolding ScvU32 scValToNative.simps bigIntToNumber.simps is_double.simps .
qed (simp_all add: is_double_toDouble toDouble_zero)

lemma getProp_native:
  "getProp (scValToNative v) k = JUndefined \<or> (\<exists>v'. getProp (scValToNative v) k = scValToNative v')"
proof (cases v)
  case (ScvMap kvs)
  have "map_of (map (\<lambda>(k, v). (k, scValToNative v)) kvs) k = map_option scValToNative (map_of kvs k)"
    by (induction kvs) auto
  then show ?thesis by (cases "map_of kvs k") (auto simp: ScvMap)
qed simp_all

lemma is_double_getProp: "is_double (bigIntToNumber (getProp (scValToNative v) k))"
  using getProp_native[of v k] is_double_native by (auto simp: toDouble_zero)

lemma is_double_total_supply:
  assumes "getCompanyInfo w cid = Some info"
  shows "is_double (total_supply info)"
proof -
  obtain result where r: "fst (readContract w cid ''get_company_info'' []) = Inr result"
    "total_supply info = bigIntToNumber (getProp result ''total_supply'')"
    using assms by (auto simp: getCompanyInfo_def split: sum.splits if_splits)
  have "result = JNull \<or> (\<exists>v. result = scValToNative v)"
    using r(1) by (auto simp: readContract_def Let_def split: sum.splits option.splits if_splits)
  then show ?thesis using r(2) is_double_getProp by (auto simp: toDouble_zero)
qed

lemma balanceFailsWorld_simps:
  "newContract (balanceFailsWorld i) = Inr"
  "addressCheck (balanceFailsWorld i) a = None"
  "getAccount (balanceFailsWorld i) a = Inr \<lparr>accountId = a, sequence = 7\<rparr>"
  "simulateTransaction (balanceFailsWorld i) t =
     (if tx_method t = ''balance_of'' then Inr (SimulationFailure ''HostError'')
      else Inr (SimulationSuccess (Some i)))"
  by (simp_all add: balanceFailsWorld_def exampleWorld_def)

lemma balanceFailsWorld_balance:
  "fst (readContract (balanceFailsWorld i) cid ''balance_of'' ps) = Inl ReadSimulationError"
  by (simp add: readContract_def Let_def balanceFailsWorld_simps buildTransaction_def ReadSimulationError_def)

lemma balanceFailsWorld_info:
  "\<exists>info. getCompanyInfo (balanceFailsWorld exampleInfo) cid = Some info \<and> total_supply info = Fin 1000"
  using toDouble_of_int[of 1000]
  by (simp add: getCompanyInfo_def readContract_def Let_def balanceFailsWorld_simps buildTransaction_def
      exampleInfo_def)

text \<open>
  C10. When the read behind \<^verbatim>\<open>getTokenBalance\<close> fails (the address is rejected, or the
  read-only call throws), the balance is \<open>0\<close> and no error propagates. When that
  happens for the owner of a company whose on-chain info was read, the entry that
  \<^verbatim>\<open>loadCompanies\<close> builds reports the whole total supply as tokens sold.
\<close>

theorem failed_balance_read_is_zero:
  "(addressToScVal w address = Inl e
      \<or> (\<exists>a. addressToScVal w address = Inr a \<and> fst (readContract w cid ''balance_of'' [a]) = Inl e)
     \<longrightarrow> getTokenBalance w cid address = Fin 0)
   \<and> ((addressToScVal w (owner_wallet meta) = Inl e
        \<or> (\<exists>a. addressToScVal w (owner_wallet meta) = Inr a
              \<and> fst (readContract w (contractId meta) ''balance_of'' [a]) = Inl e))
       \<and> getCompanyInfo w (contractId meta) = Some info
     \<longrightarrow> loadCompany w meta = \<lparr>metadata = meta, onChainInfo = Some info, tokensSold = total_supply info\<rparr>)"
proof (intro conjI impI)
  assume "addressToScVal w address = Inl e
      \<or> (\<exists>a. addressToScVal w address = Inr a \<and> fst (readContract w cid ''balance_of'' [a]) = Inl e)"
  then show "getTokenBalance w cid address = Fin 0"
    by (auto simp: getTokenBalance_def)
next
  assume a: "(addressToScVal w (owner_wallet meta) = Inl e
        \<or> (\<exists>a. addressToScVal w (owner_wallet meta) = Inr a
              \<and> fst (readContract w (contractId meta) ''balance_of'' [a]) = Inl e))
       \<and> getCompanyInfo w (contractId meta) = Some info"
  then have b: "getTokenBalance w (contractId meta) (owner_wallet meta) = Fin 0"
    by (auto simp: getTokenBalance_def)
  have "js_sub (total_supply info) (Fin 0) = total_supply info"
    using a is_double_total_supply js_sub_zero by blast
  then show "loadCompany w meta = \<lparr>metadata = meta, onChainInfo = Some info, tokensSold = total_supply info\<rparr>"
    using a b by (simp add: loadCompany_def)
qed

theorem failed_balance_read_is_zero_witness:
  "getTokenBalance (balanceFailsWorld exampleInfo) ''C1'' ''GOWNER'' = Fin 0
   \<and> tokensSold (loadCompany (balanceFailsWorld exampleInfo) (toCompanyMetadata exampleCompany)) = Fin 1000
   \<and> onChainInfo (loadCompany (balanceFailsWorld exampleInfo) (toCompanyMetadata exampleCompany)) \<noteq> None"
proof -
  let ?w = "balanceFailsWorld exampleInfo"
  let ?m = "toCompanyMetadata exampleCompany"
  have m: "contractId ?m = ''C1''" "owner_wallet ?m = ''GOWNER''"
    by (simp_all add: toCompanyMetadata_def exampleCompany_def)
  have a: "addressToScVal ?w ''GOWNER'' = Inr (ScvAddress ''GOWNER'')"
    by (simp add: addressToScVal_def balanceFailsWorld_simps)
  have f: "\<exists>a. addressToScVal ?w ''GOWNER'' = Inr a
      \<and> fst (readContract ?w ''C1'' ''balance_of'' [a]) = Inl ReadSimulationError"
    using a balanceFailsWorld_balance by simp
  obtain info where i: "getCompanyInfo ?w ''C1'' = Some info" "total_supply info = Fin 1000"
    using balanceFailsWorld_info by blast
  have 1: "getTokenBalance ?w ''C1'' ''GOWNER'' = Fin 0"
    using failed_balance_read_is_zero[of ?w "''GOWNER''" ReadSimulationError "''C1''"] f by blast
  have "loadCompany ?w ?m = \<lparr>metadata = ?m, onChainInfo = Some info, tokensSold = total_supply info\<rparr>"
    using failed_balance_read_is_zero[of ?w _ ReadSimulationError _ ?m info] f i(1) unfolding m by blast
  then show ?thesis using 1 i(2) by simp
qed

end
